theory Spec2Isabelle
  imports Complex_Main
begin

section \<open>The ReownAppKitService session and token lifecycle\<close>

text \<open>
  A shallow embedding of \<^verbatim>\<open>ReownAppKitService\<close> (the injectable service of the
  AppKit library) and of the models in \<^verbatim>\<open>models/index.ts\<close>. The service keeps two
  \<^verbatim>\<open>BehaviorSubject\<close>s (current user, current session), a configuration, and one
  entry of \<^verbatim>\<open>localStorage\<close>. What the service takes from its surroundings is an
  argument of the model: the reading of the clock (\<^verbatim>\<open>new Date()\<close>), the outcome of
  an HTTP exchange, and the ECMAScript library functions \<^verbatim>\<open>JSON.parse\<close>,
  \<^verbatim>\<open>JSON.stringify\<close>, \<^verbatim>\<open>Date.parse\<close> and the printing of numbers, collected in
  a record \<open>platform\<close>.

  A method that talks to the server runs in two steps, which the model keeps apart.
  The call builds the headers and the request, at once and in the state it finds; it
  can throw. The answer is what the operators piped on the request do when the
  response or the failure arrives; it runs later, in whatever state the service is in
  by then. Between the two, other calls and other answers can happen.

  The store is taken to be there and to accept every write, a response to have the
  fields the code reads from it (the token in it being whatever JSON value the server
  sent), and a subscriber of the two subjects not to throw. Logging on the console is
  not modelled.
\<close>

subsection \<open>JavaScript values\<close>

text \<open>
  The values \<^verbatim>\<open>JSON.parse\<close> can return. A number is an IEEE double: a finite one is
  a rational, and a literal too large for a double parses to an infinity. An object
  lists its own properties, each key once. The result \<^verbatim>\<open>undefined\<close> of a property
  access is \<open>None\<close> of \<open>json option\<close>; so is the \<^verbatim>\<open>null\<close> that
  \<^verbatim>\<open>getStoredToken\<close> returns.
\<close>

datatype jsnumber = Finite rat | PosInfinity | NegInfinity

datatype json =
    JNull
  | JBool bool
  | JNumber jsnumber
  | JString string
  | JArray "json list"
  | JObject "(string \<times> json) list"

datatype js_error = SyntaxError | TypeError

record platform =
  JSON_parse :: "string \<Rightarrow> json option"
  JSON_stringify :: "json \<Rightarrow> string"
  Date_parse :: "string \<Rightarrow> int option"
  Number_toString :: "jsnumber \<Rightarrow> string"

text \<open>
  \<open>JSON_parse P str = None\<close> stands for the \<^verbatim>\<open>SyntaxError\<close> that \<^verbatim>\<open>JSON.parse\<close>
  throws; \<open>Date_parse P str = None\<close> for the \<^verbatim>\<open>NaN\<close> of a string that is no date.
  A time is the number of milliseconds since the epoch.
\<close>

fun ToBoolean :: "json \<Rightarrow> bool" where
  "ToBoolean JNull = False"
| "ToBoolean (JBool b) = b"
| "ToBoolean (JNumber n) = (n \<noteq> Finite 0)"
| "ToBoolean (JString str) = (str \<noteq> [])"
| "ToBoolean (JArray xs) = True"
| "ToBoolean (JObject kvs) = True"

definition truthy :: "json option \<Rightarrow> bool" where
  "truthy r = (case r of None \<Rightarrow> False | Some v \<Rightarrow> ToBoolean v)"

text \<open>
  \<open>property v k\<close> is \<^verbatim>\<open>v.k\<close> for a value other than \<^verbatim>\<open>null\<close> and a key that no
  prototype defines (\<^verbatim>\<open>token\<close>, \<^verbatim>\<open>expiresAt\<close>): an own property of an object, and
  \<^verbatim>\<open>undefined\<close> on everything else. On \<^verbatim>\<open>null\<close> the access throws a
  \<^verbatim>\<open>TypeError\<close>, which is \<open>property_or_throw\<close>.
\<close>

fun property :: "json \<Rightarrow> string \<Rightarrow> json option" where
  "property (JObject kvs) k = map_of kvs k"
| "property v k = None"

definition property_or_throw :: "json \<Rightarrow> string \<Rightarrow> js_error + json option" where
  "property_or_throw v k = (if v = JNull then Inl TypeError else Inr (property v k))"

definition join :: "string list \<Rightarrow> string" where
  "join strs = (case strs of [] \<Rightarrow> [] | x # xs \<Rightarrow> foldl (\<lambda>acc y. acc @ '','' @ y) x xs)"

fun in_turn :: "('e + 'a) list \<Rightarrow> 'e + 'a list" where
  \<comment> \<open>the results of steps taken one after the other, up to the first that throws\<close>
  "in_turn [] = Inr []"
| "in_turn (Inl err # rs) = Inl err"
| "in_turn (Inr x # rs) = (case in_turn rs of Inl err \<Rightarrow> Inl err | Inr xs \<Rightarrow> Inr (x # xs))"

text \<open>
  The conversion of a value to a string, as a template literal and the \<^verbatim>\<open>Date\<close>
  constructor make it. An object is asked for its \<^verbatim>\<open>toString\<close> and its
  \<^verbatim>\<open>valueOf\<close>: the ones it inherits give \<^verbatim>\<open>[object Object]\<close>, but an own
  property \<^verbatim>\<open>toString\<close> of a parsed object hides the inherited method and is not
  callable, the inherited \<^verbatim>\<open>valueOf\<close> returns the object itself, and the conversion
  throws a \<^verbatim>\<open>TypeError\<close>. An array joins the strings of its elements, the empty
  string for \<^verbatim>\<open>null\<close>, and throws where one of them does.
\<close>

fun ToString :: "platform \<Rightarrow> json \<Rightarrow> js_error + string" where
  "ToString P JNull = Inr ''null''"
| "ToString P (JBool b) = Inr (if b then ''true'' else ''false'')"
| "ToString P (JNumber n) = Inr (Number_toString P n)"
| "ToString P (JString str) = Inr str"
| "ToString P (JArray xs) =
     (case in_turn (map (\<lambda>x. if x = JNull then Inr [] else ToString P x) xs) of
        Inl err \<Rightarrow> Inl err
      | Inr strs \<Rightarrow> Inr (join strs))"
| "ToString P (JObject kvs) =
     (if map_of kvs ''toString'' = None then Inr ''[object Object]'' else Inl TypeError)"

definition template :: "platform \<Rightarrow> json option \<Rightarrow> js_error + string" where
  \<comment> \<open>a value substituted into a template literal\<close>
  "template P r = (case r of None \<Rightarrow> Inr ''undefined'' | Some v \<Rightarrow> ToString P v)"

definition TimeClip :: "jsnumber \<Rightarrow> int option" where
  "TimeClip n =
     (case n of
        Finite q \<Rightarrow>
          if \<bar>q\<bar> \<le> 8640000000000000
          then Some (if 0 \<le> q then \<lfloor>q\<rfloor> else \<lceil>q\<rceil>)
          else None
      | PosInfinity \<Rightarrow> None
      | NegInfinity \<Rightarrow> None)"

text \<open>
  \<^verbatim>\<open>new Date(v)\<close>: \<open>Inl\<close> when the constructor throws, and otherwise the time value
  of the date, \<open>None\<close> for an invalid date. \<^verbatim>\<open>undefined\<close> gives \<^verbatim>\<open>NaN\<close>,
  \<^verbatim>\<open>null\<close> and the booleans convert to the numbers 0 and 1, a string is parsed, and
  an array or object is first turned into a string, which is where it can throw.
\<close>

fun new_Date :: "platform \<Rightarrow> json option \<Rightarrow> js_error + int option" where
  "new_Date P None = Inr None"
| "new_Date P (Some JNull) = Inr (Some 0)"
| "new_Date P (Some (JBool b)) = Inr (Some (if b then 1 else 0))"
| "new_Date P (Some (JNumber n)) = Inr (TimeClip n)"
| "new_Date P (Some (JString str)) = Inr (Date_parse P str)"
| "new_Date P (Some (JArray xs)) =
     (case ToString P (JArray xs) of Inl err \<Rightarrow> Inl err | Inr str \<Rightarrow> Inr (Date_parse P str))"
| "new_Date P (Some (JObject kvs)) =
     (case ToString P (JObject kvs) of Inl err \<Rightarrow> Inl err | Inr str \<Rightarrow> Inr (Date_parse P str))"

definition date_less :: "int option \<Rightarrow> int option \<Rightarrow> bool" where
  \<comment> \<open>\<^verbatim>\<open><\<close> on two dates: false as soon as one of them is invalid\<close>
  "date_less a b =
     (case a of None \<Rightarrow> False
      | Some x \<Rightarrow> (case b of None \<Rightarrow> False | Some y \<Rightarrow> x < y))"

text \<open>
  An object written as a literal or passed as an argument: its own properties, where a
  property can be there with the value \<^verbatim>\<open>undefined\<close> (\<open>Some None\<close>). Spreading copies
  every own property, those too.
\<close>

type_synonym js_object = "string \<rightharpoonup> json option"

definition spread :: "js_object \<Rightarrow> js_object option \<Rightarrow> js_object" where
  \<comment> \<open>\<^verbatim>\<open>{ ...obj, ...extra }\<close>, where \<open>extra\<close> may be \<^verbatim>\<open>undefined\<close>\<close>
  "spread obj extra = (case extra of None \<Rightarrow> obj | Some props \<Rightarrow> obj ++ props)"

subsection \<open>The models\<close>

datatype Environment = production | sandbox

record ReownConfig =
  apiKey :: string
  organizationId :: "string option"
  environment :: "Environment option"
  baseUrl :: "string option"

text \<open>
  The own properties of an object of type \<^verbatim>\<open>ReownConfig\<close> passed to \<^verbatim>\<open>init\<close>: an
  optional property is absent (\<open>None\<close>), or there with a value that may be
  \<^verbatim>\<open>undefined\<close> (\<open>Some None\<close>).
\<close>

record ReownConfigProperties =
  has_apiKey :: string
  has_organizationId :: "string option option"
  has_environment :: "Environment option option"
  has_baseUrl :: "string option option"

record ReownUser =
  user_id :: string
  email :: string
  firstName :: "string option"
  lastName :: "string option"
  user_metadata :: "(string \<times> json) list option"

record ReownSession =
  session_id :: string
  userId :: string
  session_expiresAt :: json
  session_metadata :: "(string \<times> json) list option"

text \<open>
  A \<^verbatim>\<open>ReownToken\<close> reaches the service as a part of a decoded JSON response, is
  written to the store as JSON text and is read back with \<^verbatim>\<open>JSON.parse\<close>, whose
  result is cast to the interface without a check: in the model a token is the
  \<open>json\<close> value itself, with the properties \<^verbatim>\<open>token\<close> and \<^verbatim>\<open>expiresAt\<close> when
  it has the shape of the interface. Users and sessions are only stored, handed on and
  compared with \<^verbatim>\<open>null\<close>; they are records of their interfaces.
\<close>

type_synonym ReownToken = json

subsection \<open>The state of the service\<close>

record 'a BehaviorSubject =
  current :: 'a
  emitted :: "'a list"

definition new_BehaviorSubject :: "'a \<Rightarrow> 'a BehaviorSubject" where
  "new_BehaviorSubject v = \<lparr>current = v, emitted = []\<rparr>"

definition subject_next :: "'a \<Rightarrow> 'a BehaviorSubject \<Rightarrow> 'a BehaviorSubject" where
  "subject_next v subj = \<lparr>current = v, emitted = emitted subj @ [v]\<rparr>"

record state =
  config :: ReownConfig
  currentUserSubject :: "ReownUser option BehaviorSubject"
  currentSessionSubject :: "ReownSession option BehaviorSubject"
  localStorage :: "string \<rightharpoonup> string"

definition DEFAULT_BASE_URL :: string where
  "DEFAULT_BASE_URL = ''https://api.reown.com''"

definition tokenStorageKey :: string where
  "tokenStorageKey = ''reown_token''"

subsection \<open>Token persistence\<close>

definition setToken :: "platform \<Rightarrow> ReownToken \<Rightarrow> state \<Rightarrow> state" where
  "setToken P token s =
     s\<lparr>localStorage := (localStorage s)(tokenStorageKey \<mapsto> JSON_stringify P token)\<rparr>"

definition clearSession :: "state \<Rightarrow> state" where
  "clearSession s =
     s\<lparr>localStorage := (localStorage s)(tokenStorageKey := None),
       currentUserSubject := subject_next None (currentUserSubject s),
       currentSessionSubject := subject_next None (currentSessionSubject s)\<rparr>"

text \<open>
  The body of the \<^verbatim>\<open>try\<close> block of \<^verbatim>\<open>getStoredToken\<close>: \<open>Inl\<close> is an exception
  thrown in it (by \<^verbatim>\<open>JSON.parse\<close>, by reading \<^verbatim>\<open>expiresAt\<close> of \<^verbatim>\<open>null\<close>, or by
  \<^verbatim>\<open>new Date\<close> on an \<^verbatim>\<open>expiresAt\<close> that has no string), before anything was
  changed.
\<close>

definition getStoredToken_try ::
  "platform \<Rightarrow> int \<Rightarrow> state \<Rightarrow> string \<Rightarrow> js_error + (ReownToken option \<times> state)" where
  "getStoredToken_try P now s tokenStr =
     (case JSON_parse P tokenStr of
        None \<Rightarrow> Inl SyntaxError
      | Some token \<Rightarrow>
          (case property_or_throw token ''expiresAt'' of
             Inl err \<Rightarrow> Inl err
           | Inr expiresAt \<Rightarrow>
               (case new_Date P expiresAt of
                  Inl err \<Rightarrow> Inl err
                | Inr date \<Rightarrow>
                    if date_less date (Some now)
                    then Inr (None, clearSession s)
                    else Inr (Some token, s))))"

definition getStoredToken :: "platform \<Rightarrow> int \<Rightarrow> state \<Rightarrow> ReownToken option \<times> state" where
  "getStoredToken P now s =
     (case localStorage s tokenStorageKey of
        None \<Rightarrow> (None, s)
      | Some tokenStr \<Rightarrow>
          if tokenStr = [] then (None, s)
          else (case getStoredToken_try P now s tokenStr of
                  Inl err \<Rightarrow> (None, clearSession s)
                | Inr r \<Rightarrow> r))"

subsection \<open>Requests, responses and results\<close>

record request =
  http_method :: string
  url :: string
  body :: "js_object option"
  headers :: "(string \<times> string) list"

record SignUpResponse =
  signup_user :: ReownUser
  signup_token :: ReownToken

record SignInResponse =
  signin_user :: ReownUser
  signin_session :: ReownSession
  signin_token :: ReownToken

record UserResponse =
  response_user :: ReownUser

datatype HttpError = HttpError (message: "string option")

datatype 'a HttpResult = HttpSuccess 'a | HttpFailure HttpError

datatype Error = Error string

text \<open>
  How a method can fail its caller: it throws while it is being called (\<open>Throws\<close>), or
  the observable it returned ends with an \<^verbatim>\<open>Error\<close> (\<open>Fails\<close>).
\<close>

datatype failure = Throws js_error | Fails Error

text \<open>
  An operation taken from its call to the end of its answer with nothing in between:
  the request that went out (none when the method threw or answered by itself), the
  value delivered or the failure, and the state of the service afterwards.
\<close>

record 'a completed =
  sent :: "request option"
  outcome :: "failure + 'a"
  after :: state

definition complete ::
  "(js_error + request) \<times> state \<Rightarrow> (state \<Rightarrow> (failure + 'a) \<times> state) \<Rightarrow> 'a completed" where
  "complete called answer =
     (case fst called of
        Inl err \<Rightarrow> \<lparr>sent = None, outcome = Inl (Throws err), after = snd called\<rparr>
      | Inr req \<Rightarrow>
          \<lparr>sent = Some req, outcome = fst (answer (snd called)),
           after = snd (answer (snd called))\<rparr>)"

definition or_else :: "string option \<Rightarrow> string \<Rightarrow> string" where
  \<comment> \<open>\<^verbatim>\<open>error.message || fallback\<close>: the fallback for \<^verbatim>\<open>undefined\<close> and for the empty string\<close>
  "or_else m fallback =
     (case m of None \<Rightarrow> fallback | Some msg \<Rightarrow> if msg = [] then fallback else msg)"

definition endpoint :: "state \<Rightarrow> string \<Rightarrow> string" where
  "endpoint s path =
     (case baseUrl (config s) of None \<Rightarrow> ''undefined'' | Some b \<Rightarrow> b) @ path"

subsection \<open>Headers\<close>

text \<open>
  \<^verbatim>\<open>getHeaders\<close> reads the token, which can clear the session, and then prints the
  \<^verbatim>\<open>token\<close> property of what it read into the \<^verbatim>\<open>Authorization\<close> header. That
  template literal stands in no \<^verbatim>\<open>try\<close>: where it throws, \<^verbatim>\<open>getHeaders\<close> throws
  (\<open>Inl\<close>), and so does the method that called it.
\<close>

definition getHeaders ::
  "platform \<Rightarrow> int \<Rightarrow> state \<Rightarrow> (js_error + (string \<times> string) list) \<times> state" where
  "getHeaders P now s =
     (let headers0 = [(''Content-Type'', ''application/json''),
                      (''X-API-Key'', apiKey (config s))];
          headers1 =
            (case organizationId (config s) of
               None \<Rightarrow> headers0
             | Some org \<Rightarrow>
                 if org = [] then headers0 else headers0 @ [(''X-Organization-ID'', org)]);
          read = getStoredToken P now s
      in (case fst read of
            None \<Rightarrow> (Inr headers1, snd read)
          | Some token \<Rightarrow>
              if ToBoolean token
              then (case template P (property token ''token'') of
                      Inl err \<Rightarrow> (Inl err, snd read)
                    | Inr str \<Rightarrow>
                        (Inr (headers1 @ [(''Authorization'', ''Bearer '' @ str)]), snd read))
              else (Inr headers1, snd read)))"

definition requesting ::
  "platform \<Rightarrow> int \<Rightarrow> state \<Rightarrow> string \<Rightarrow> string \<Rightarrow> js_object option \<Rightarrow>
     (js_error + request) \<times> state" where
  \<comment> \<open>the arguments of \<^verbatim>\<open>this.http.post\<close> and its like, evaluated when the method is called\<close>
  "requesting P now s verb path payload =
     (let built = getHeaders P now s
      in (case fst built of
            Inl err \<Rightarrow> Inl err
          | Inr hs \<Rightarrow>
              Inr \<lparr>http_method = verb, url = endpoint s path, body = payload, headers = hs\<rparr>,
          snd built))"

subsection \<open>The operations\<close>

definition signUp_call ::
  "platform \<Rightarrow> int \<Rightarrow> state \<Rightarrow> string \<Rightarrow> string \<Rightarrow> js_object option \<Rightarrow>
     (js_error + request) \<times> state" where
  "signUp_call P now s email_arg password userData =
     requesting P now s ''POST'' ''/users''
       (Some (spread [''email'' \<mapsto> Some (JString email_arg),
                      ''password'' \<mapsto> Some (JString password)] userData))"

definition signUp_answer ::
  "platform \<Rightarrow> SignUpResponse HttpResult \<Rightarrow> state \<Rightarrow> (failure + ReownUser) \<times> state" where
  "signUp_answer P http s =
     (case http of
        HttpSuccess response \<Rightarrow>
          (let s1 = setToken P (signup_token response) s;
               s2 = s1\<lparr>currentUserSubject :=
                         subject_next (Some (signup_user response)) (currentUserSubject s1)\<rparr>
           in (Inr (signup_user response), s2))
      | HttpFailure error \<Rightarrow>
          (Inl (Fails (Error (or_else (message error) ''Sign up failed''))), s))"

definition signUp ::
  "platform \<Rightarrow> int \<Rightarrow> state \<Rightarrow> string \<Rightarrow> string \<Rightarrow> js_object option \<Rightarrow>
     SignUpResponse HttpResult \<Rightarrow> ReownUser completed" where
  "signUp P now s email_arg password userData http =
     complete (signUp_call P now s email_arg password userData) (signUp_answer P http)"

definition signIn_call ::
  "platform \<Rightarrow> int \<Rightarrow> state \<Rightarrow> string \<Rightarrow> string \<Rightarrow> (js_error + request) \<times> state" where
  "signIn_call P now s email_arg password =
     requesting P now s ''POST'' ''/sessions''
       (Some [''email'' \<mapsto> Some (JString email_arg),
              ''password'' \<mapsto> Some (JString password)])"

definition signIn_answer ::
  "platform \<Rightarrow> SignInResponse HttpResult \<Rightarrow> state \<Rightarrow> (failure + ReownSession) \<times> state" where
  "signIn_answer P http s =
     (case http of
        HttpSuccess response \<Rightarrow>
          (let s1 = setToken P (signin_token response) s;
               s2 = s1\<lparr>currentUserSubject :=
                         subject_next (Some (signin_user response)) (currentUserSubject s1)\<rparr>;
               s3 = s2\<lparr>currentSessionSubject :=
                         subject_next (Some (signin_session response))
                           (currentSessionSubject s2)\<rparr>
           in (Inr (signin_session response), s3))
      | HttpFailure error \<Rightarrow>
          (Inl (Fails (Error (or_else (message error) ''Sign in failed''))), s))"

definition signIn ::
  "platform \<Rightarrow> int \<Rightarrow> state \<Rightarrow> string \<Rightarrow> string \<Rightarrow>
     SignInResponse HttpResult \<Rightarrow> ReownSession completed" where
  "signIn P now s email_arg password http =
     complete (signIn_call P now s email_arg password) (signIn_answer P http)"

text \<open>
  \<^verbatim>\<open>signOut\<close> without a session id clears the session and answers by itself. With
  one it builds a request like the other methods, and clears the session when the
  response or the failure arrives.
\<close>

definition signOut_call ::
  "platform \<Rightarrow> int \<Rightarrow> state \<Rightarrow> (js_error + request option) \<times> state" where
  "signOut_call P now s =
     (let sessionId =
            (case current (currentSessionSubject s) of
               None \<Rightarrow> None
             | Some se \<Rightarrow> Some (session_id se))
      in (case sessionId of
            None \<Rightarrow> (Inr None, clearSession s)
          | Some sid \<Rightarrow>
              if sid = [] then (Inr None, clearSession s)
              else
                (let called = requesting P now s ''DELETE'' (''/sessions/'' @ sid) None
                 in (case fst called of
                       Inl err \<Rightarrow> (Inl err, snd called)
                     | Inr req \<Rightarrow> (Inr (Some req), snd called)))))"

definition signOut_answer :: "unit HttpResult \<Rightarrow> state \<Rightarrow> (failure + unit) \<times> state" where
  "signOut_answer http s =
     (case http of
        HttpSuccess u \<Rightarrow> (Inr (), clearSession s)
      | HttpFailure error \<Rightarrow> (Inr (), clearSession s))"

definition signOut :: "platform \<Rightarrow> int \<Rightarrow> state \<Rightarrow> unit HttpResult \<Rightarrow> unit completed" where
  "signOut P now s http =
     (let called = signOut_call P now s
      in (case fst called of
            Inl err \<Rightarrow> \<lparr>sent = None, outcome = Inl (Throws err), after = snd called\<rparr>
          | Inr None \<Rightarrow> \<lparr>sent = None, outcome = Inr (), after = snd called\<rparr>
          | Inr (Some req) \<Rightarrow>
              \<lparr>sent = Some req, outcome = fst (signOut_answer http (snd called)),
               after = snd (signOut_answer http (snd called))\<rparr>))"

definition getUser_call :: "platform \<Rightarrow> int \<Rightarrow> state \<Rightarrow> (js_error + request) \<times> state" where
  "getUser_call P now s = requesting P now s ''GET'' ''/users/me'' None"

definition getUser_answer ::
  "UserResponse HttpResult \<Rightarrow> state \<Rightarrow> (failure + ReownUser) \<times> state" where
  "getUser_answer http s =
     (case http of
        HttpSuccess response \<Rightarrow>
          (Inr (response_user response),
           s\<lparr>currentUserSubject :=
               subject_next (Some (response_user response)) (currentUserSubject s)\<rparr>)
      | HttpFailure error \<Rightarrow>
          (Inl (Fails (Error (or_else (message error) ''Get user failed''))), s))"

definition getUser ::
  "platform \<Rightarrow> int \<Rightarrow> state \<Rightarrow> UserResponse HttpResult \<Rightarrow> ReownUser completed" where
  "getUser P now s http = complete (getUser_call P now s) (getUser_answer http)"

definition updateUser_call ::
  "platform \<Rightarrow> int \<Rightarrow> state \<Rightarrow> js_object \<Rightarrow> (js_error + request) \<times> state" where
  "updateUser_call P now s userData = requesting P now s ''PATCH'' ''/users/me'' (Some userData)"

definition updateUser_answer ::
  "UserResponse HttpResult \<Rightarrow> state \<Rightarrow> (failure + ReownUser) \<times> state" where
  "updateUser_answer http s =
     (case http of
        HttpSuccess response \<Rightarrow>
          (Inr (response_user response),
           s\<lparr>currentUserSubject :=
               subject_next (Some (response_user response)) (currentUserSubject s)\<rparr>)
      | HttpFailure error \<Rightarrow>
          (Inl (Fails (Error (or_else (message error) ''Update user failed''))), s))"

definition updateUser ::
  "platform \<Rightarrow> int \<Rightarrow> state \<Rightarrow> js_object \<Rightarrow> UserResponse HttpResult \<Rightarrow>
     ReownUser completed" where
  "updateUser P now s userData http =
     complete (updateUser_call P now s userData) (updateUser_answer http)"

definition requestPasswordReset_call ::
  "platform \<Rightarrow> int \<Rightarrow> state \<Rightarrow> string \<Rightarrow> (js_error + request) \<times> state" where
  "requestPasswordReset_call P now s email_arg =
     requesting P now s ''POST'' ''/password-reset''
       (Some [''email'' \<mapsto> Some (JString email_arg)])"

definition requestPasswordReset_answer ::
  "unit HttpResult \<Rightarrow> state \<Rightarrow> (failure + unit) \<times> state" where
  "requestPasswordReset_answer http s =
     (case http of
        HttpSuccess u \<Rightarrow> (Inr u, s)
      | HttpFailure error \<Rightarrow>
          (Inl (Fails (Error (or_else (message error) ''Request password reset failed''))), s))"

definition requestPasswordReset ::
  "platform \<Rightarrow> int \<Rightarrow> state \<Rightarrow> string \<Rightarrow> unit HttpResult \<Rightarrow> unit completed" where
  "requestPasswordReset P now s email_arg http =
     complete (requestPasswordReset_call P now s email_arg) (requestPasswordReset_answer http)"

definition resetPassword_call ::
  "platform \<Rightarrow> int \<Rightarrow> state \<Rightarrow> string \<Rightarrow> string \<Rightarrow> (js_error + request) \<times> state" where
  "resetPassword_call P now s token newPassword =
     requesting P now s ''POST'' ''/password-reset/confirm''
       (Some [''token'' \<mapsto> Some (JString token),
              ''password'' \<mapsto> Some (JString newPassword)])"

definition resetPassword_answer ::
  "unit HttpResult \<Rightarrow> state \<Rightarrow> (failure + unit) \<times> state" where
  "resetPassword_answer http s =
     (case http of
        HttpSuccess u \<Rightarrow> (Inr u, s)
      | HttpFailure error \<Rightarrow>
          (Inl (Fails (Error (or_else (message error) ''Reset password failed''))), s))"

definition resetPassword ::
  "platform \<Rightarrow> int \<Rightarrow> state \<Rightarrow> string \<Rightarrow> string \<Rightarrow> unit HttpResult \<Rightarrow> unit completed" where
  "resetPassword P now s token newPassword http =
     complete (resetPassword_call P now s token newPassword) (resetPassword_answer http)"

definition isAuthenticated :: "platform \<Rightarrow> int \<Rightarrow> state \<Rightarrow> bool \<times> state" where
  "isAuthenticated P now s =
     (case current (currentUserSubject s) of
        None \<Rightarrow> (False, s)
      | Some u \<Rightarrow> (let read = getStoredToken P now s in (truthy (fst read), snd read)))"

subsection \<open>Construction\<close>

definition with_defaults :: "ReownConfig option \<Rightarrow> ReownConfig" where
  "with_defaults given =
     (let c = (case given of
                 None \<Rightarrow> \<lparr>apiKey = [], organizationId = None,
                           environment = None, baseUrl = None\<rparr>
               | Some c \<Rightarrow> c);
          c1 = c\<lparr>environment :=
                   Some (case environment c of None \<Rightarrow> production | Some e \<Rightarrow> e)\<rparr>
      in c1\<lparr>baseUrl :=
               Some (case baseUrl c1 of
                       None \<Rightarrow> DEFAULT_BASE_URL
                     | Some b \<Rightarrow> if b = [] then DEFAULT_BASE_URL else b)\<rparr>)"

definition new_service :: "ReownConfig option \<Rightarrow> (string \<rightharpoonup> string) \<Rightarrow> state" where
  \<comment> \<open>the fields as the constructor leaves them before it calls \<^verbatim>\<open>restoreSession\<close>\<close>
  "new_service given storage =
     \<lparr>config = with_defaults given,
      currentUserSubject = new_BehaviorSubject None,
      currentSessionSubject = new_BehaviorSubject None,
      localStorage = storage\<rparr>"

text \<open>
  \<^verbatim>\<open>restoreSession\<close> reads the token and, when there is one, calls \<^verbatim>\<open>getUser()\<close>
  and subscribes to it with no handler; \<open>now'\<close> is the reading of the clock when
  \<^verbatim>\<open>getUser\<close> builds its headers. The constructor returns with that request under
  way (\<open>Inr (Some req)\<close>): its answer is a \<^verbatim>\<open>getUser\<close> answer that comes later.
  Where \<^verbatim>\<open>getUser\<close> throws, the constructor throws.
\<close>

definition restoreSession ::
  "platform \<Rightarrow> int \<Rightarrow> int \<Rightarrow> state \<Rightarrow> (js_error + request option) \<times> state" where
  "restoreSession P now now' s =
     (let read = getStoredToken P now s
      in if truthy (fst read)
         then (let called = getUser_call P now' (snd read)
               in (case fst called of
                     Inl err \<Rightarrow> (Inl err, snd called)
                   | Inr req \<Rightarrow> (Inr (Some req), snd called)))
         else (Inr None, snd read))"

definition constructor ::
  "platform \<Rightarrow> ReownConfig option \<Rightarrow> (string \<rightharpoonup> string) \<Rightarrow> int \<Rightarrow> int \<Rightarrow>
     (js_error + request option) \<times> state" where
  "constructor P given storage now now' =
     restoreSession P now now' (new_service given storage)"

definition init :: "ReownConfigProperties \<Rightarrow> state \<Rightarrow> state" where
  \<comment> \<open>\<^verbatim>\<open>{ ...this.config, ...config }\<close>: every own property of the argument replaces the old one\<close>
  "init given s =
     s\<lparr>config :=
         \<lparr>apiKey = has_apiKey given,
          organizationId =
            (case has_organizationId given of
               None \<Rightarrow> organizationId (config s) | Some x \<Rightarrow> x),
          environment =
            (case has_environment given of None \<Rightarrow> environment (config s) | Some x \<Rightarrow> x),
          baseUrl = (case has_baseUrl given of None \<Rightarrow> baseUrl (config s) | Some x \<Rightarrow> x)\<rparr>\<rparr>"

subsection \<open>Calls and answers in any order\<close>

text \<open>
  What happens to a service after its construction: a method is called, with the
  reading of the clock at that moment, or the answer to a request arrives, with its
  outcome. An answer can come at any time after its call, once for each subscription,
  or never; here any answer may come at any time, which covers all of these.
\<close>

datatype event =
    Call_init ReownConfigProperties
  | Call_signUp int string string "js_object option"
  | Call_signIn int string string
  | Call_signOut int
  | Call_getUser int
  | Call_updateUser int js_object
  | Call_requestPasswordReset int string
  | Call_resetPassword int string string
  | Call_isAuthenticated int
  | Call_getStoredToken int
  | Answer_signUp "SignUpResponse HttpResult"
  | Answer_signIn "SignInResponse HttpResult"
  | Answer_signOut "unit HttpResult"
  | Answer_getUser "UserResponse HttpResult"
  | Answer_updateUser "UserResponse HttpResult"
  | Answer_requestPasswordReset "unit HttpResult"
  | Answer_resetPassword "unit HttpResult"

fun react :: "platform \<Rightarrow> event \<Rightarrow> state \<Rightarrow> state" where
  "react P (Call_init given) s = init given s"
| "react P (Call_signUp now e p d) s = snd (signUp_call P now s e p d)"
| "react P (Call_signIn now e p) s = snd (signIn_call P now s e p)"
| "react P (Call_signOut now) s = snd (signOut_call P now s)"
| "react P (Call_getUser now) s = snd (getUser_call P now s)"
| "react P (Call_updateUser now d) s = snd (updateUser_call P now s d)"
| "react P (Call_requestPasswordReset now e) s = snd (requestPasswordReset_call P now s e)"
| "react P (Call_resetPassword now t p) s = snd (resetPassword_call P now s t p)"
| "react P (Call_isAuthenticated now) s = snd (isAuthenticated P now s)"
| "react P (Call_getStoredToken now) s = snd (getStoredToken P now s)"
| "react P (Answer_signUp http) s = snd (signUp_answer P http s)"
| "react P (Answer_signIn http) s = snd (signIn_answer P http s)"
| "react P (Answer_signOut http) s = snd (signOut_answer http s)"
| "react P (Answer_getUser http) s = snd (getUser_answer http s)"
| "react P (Answer_updateUser http) s = snd (updateUser_answer http s)"
| "react P (Answer_requestPasswordReset http) s = snd (requestPasswordReset_answer http s)"
| "react P (Answer_resetPassword http) s = snd (resetPassword_answer http s)"

fun run :: "platform \<Rightarrow> event list \<Rightarrow> state \<Rightarrow> state" where
  "run P [] s = s"
| "run P (ev # evs) s = run P evs (react P ev s)"

text \<open>
  \<open>profile_backed ev s\<close>: if \<open>ev\<close> is the answer to a profile request (\<^verbatim>\<open>GET\<close> or
  \<^verbatim>\<open>PATCH /users/me\<close>) that brings a user, then the token's key holds a value in the
  state \<open>s\<close> in which it arrives. \<open>profiles_backed\<close> says so of every event of a run.
\<close>

fun profile_backed :: "event \<Rightarrow> state \<Rightarrow> bool" where
  "profile_backed (Answer_getUser (HttpSuccess r)) s = (localStorage s tokenStorageKey \<noteq> None)"
| "profile_backed (Answer_updateUser (HttpSuccess r)) s =
     (localStorage s tokenStorageKey \<noteq> None)"
| "profile_backed ev s = True"

fun profiles_backed :: "platform \<Rightarrow> event list \<Rightarrow> state \<Rightarrow> bool" where
  "profiles_backed P [] s = True"
| "profiles_backed P (ev # evs) s =
     (profile_backed ev s \<and> profiles_backed P evs (react P ev s))"

subsection \<open>The specification's notions\<close>

text \<open>
  The words of the specification about the stored value, to compare the code with.
  \<open>stored_json\<close> is the stored value when it is present, not empty and parses.
  \<open>expired\<close> is "its \<^verbatim>\<open>expiresAt\<close> is strictly before the current time", and
  \<open>undatable\<close> is "no date can be made of its \<^verbatim>\<open>expiresAt\<close>" (the constructor
  throws). \<open>token_shaped\<close> is the shape of the interface \<^verbatim>\<open>ReownToken\<close>, an object
  with a string \<^verbatim>\<open>token\<close> and an \<^verbatim>\<open>expiresAt\<close>, and \<open>expiry_date\<close> is the date its
  \<^verbatim>\<open>expiresAt\<close> reads as, if it reads as one. A valid token has the shape, and an
  expiry date that is not before the current time.
\<close>

definition stored_json :: "platform \<Rightarrow> state \<Rightarrow> json option" where
  "stored_json P s =
     (case localStorage s tokenStorageKey of
        None \<Rightarrow> None
      | Some str \<Rightarrow> if str = [] then None else JSON_parse P str)"

definition expired :: "platform \<Rightarrow> int \<Rightarrow> json \<Rightarrow> bool" where
  "expired P now v =
     (case new_Date P (property v ''expiresAt'') of
        Inl err \<Rightarrow> False
      | Inr date \<Rightarrow> date_less date (Some now))"

definition undatable :: "platform \<Rightarrow> json \<Rightarrow> bool" where
  "undatable P v =
     (case new_Date P (property v ''expiresAt'') of Inl err \<Rightarrow> True | Inr date \<Rightarrow> False)"

definition expiry_date :: "platform \<Rightarrow> json \<Rightarrow> int option" where
  "expiry_date P v =
     (case new_Date P (property v ''expiresAt'') of Inl err \<Rightarrow> None | Inr date \<Rightarrow> date)"

definition token_shaped :: "json \<Rightarrow> bool" where
  "token_shaped v =
     (case property v ''token'' of
        Some (JString t) \<Rightarrow> property v ''expiresAt'' \<noteq> None
      | _ \<Rightarrow> False)"

definition valid_token_stored :: "platform \<Rightarrow> int \<Rightarrow> state \<Rightarrow> bool" where
  \<comment> \<open>a present, parseable, non-expired token\<close>
  "valid_token_stored P now s =
     (case stored_json P s of
        None \<Rightarrow> False
      | Some v \<Rightarrow>
          token_shaped v \<and>
          (case expiry_date P v of None \<Rightarrow> False | Some date \<Rightarrow> now \<le> date))"

definition unexpired_value_stored :: "platform \<Rightarrow> int \<Rightarrow> state \<Rightarrow> bool" where
  \<comment> \<open>a present, parseable, non-expired value, whatever its shape\<close>
  "unexpired_value_stored P now s =
     (case stored_json P s of None \<Rightarrow> False | Some v \<Rightarrow> \<not> expired P now v)"

definition token_or_nothing_stored :: "platform \<Rightarrow> state \<Rightarrow> bool" where
  \<comment> \<open>the key is absent, or holds the empty string, a text that does not parse, or a token
      whose \<^verbatim>\<open>expiresAt\<close> reads as a date\<close>
  "token_or_nothing_stored P s =
     (case stored_json P s of
        None \<Rightarrow> True
      | Some v \<Rightarrow> token_shaped v \<and> expiry_date P v \<noteq> None)"

definition stale_value_stored :: "platform \<Rightarrow> int \<Rightarrow> state \<Rightarrow> bool" where
  \<comment> \<open>a non-empty stored value that does not parse, is \<^verbatim>\<open>null\<close>, is undatable or has expired\<close>
  "stale_value_stored P now s =
     (case localStorage s tokenStorageKey of
        None \<Rightarrow> False
      | Some str \<Rightarrow>
          str \<noteq> [] \<and>
          (case JSON_parse P str of
             None \<Rightarrow> True
           | Some v \<Rightarrow> v = JNull \<or> undatable P v \<or> expired P now v))"

definition accepted_value_stored :: "platform \<Rightarrow> int \<Rightarrow> state \<Rightarrow> bool" where
  \<comment> \<open>what the code takes for a token: a stored value that parses to something truthy, is not
      undatable and has not expired\<close>
  "accepted_value_stored P now s =
     (case stored_json P s of
        None \<Rightarrow> False
      | Some v \<Rightarrow> ToBoolean v \<and> \<not> undatable P v \<and> \<not> expired P now v)"

definition unprintable_token_stored :: "platform \<Rightarrow> int \<Rightarrow> state \<Rightarrow> bool" where
  \<comment> \<open>the code takes the stored value for a token, and its \<^verbatim>\<open>token\<close> property has no string\<close>
  "unprintable_token_stored P now s =
     (case stored_json P s of
        None \<Rightarrow> False
      | Some v \<Rightarrow>
          ToBoolean v \<and> \<not> undatable P v \<and> \<not> expired P now v \<and>
          (case template P (property v ''token'') of Inl err \<Rightarrow> True | Inr str \<Rightarrow> False))"

definition user_backed :: "state \<Rightarrow> bool" where
  \<comment> \<open>the current user is non-null only if the token's key holds a value\<close>
  "user_backed s =
     (current (currentUserSubject s) = None \<or> localStorage s tokenStorageKey \<noteq> None)"

subsection \<open>A platform and a scenario to run the model on\<close>

text \<open>
  A platform fixed on the strings and values of the examples below: each entry of
  \<open>js_texts\<close> is a JSON text with the value \<^verbatim>\<open>JSON.parse\<close> gives for it (and
  \<^verbatim>\<open>JSON.stringify\<close> gives the text back), every other string used below (the empty
  string, \<^verbatim>\<open>oops\<close>) is one on which \<^verbatim>\<open>JSON.parse\<close> throws, and \<open>js_dates\<close> holds
  the ISO dates of the two tokens with their times in milliseconds. No example prints
  a number. The clock of the scenario stands at \<open>1000000\<close>: the first token expires
  an hour later, the second expired a second before. Two more values have the place
  of a token and an own property \<^verbatim>\<open>toString\<close> where the code wants a string or a
  date.
\<close>

definition token_t1 :: ReownToken where
  "token_t1 = JObject [(''token'', JString ''t1''),
                       (''expiresAt'', JString ''1970-01-01T01:16:40.000Z'')]"

definition token_t0 :: ReownToken where
  "token_t0 = JObject [(''token'', JString ''t0''),
                       (''expiresAt'', JString ''1970-01-01T00:16:39.000Z'')]"

definition token_no_string :: ReownToken where
  "token_no_string = JObject [(''token'', JObject [(''toString'', JNumber (Finite 1))])]"

definition token_no_date :: ReownToken where
  "token_no_date = JObject [(''token'', JString ''t1''),
                            (''expiresAt'', JObject [(''toString'', JNumber (Finite 1))])]"

definition js_texts :: "(string \<times> json) list" where
  \<open>js_texts =
     [(''{"token":"t1","expiresAt":"1970-01-01T01:16:40.000Z"}'', token_t1),
      (''{"token":"t0","expiresAt":"1970-01-01T00:16:39.000Z"}'', token_t0),
      (''{"token":{"toString":1}}'', token_no_string),
      (''{"token":"t1","expiresAt":{"toString":1}}'', token_no_date),
      (''{}'', JObject []),
      (''0'', JNumber (Finite 0)),
      (''null'', JNull)]\<close>

definition js_dates :: "(string \<times> int) list" where
  "js_dates = [(''1970-01-01T01:16:40.000Z'', 4600000), (''1970-01-01T00:16:39.000Z'', 999000)]"

definition js :: platform where
  "js = \<lparr>JSON_parse = map_of js_texts,
         JSON_stringify =
           (\<lambda>v. case map_of (map (\<lambda>kv. (snd kv, fst kv)) js_texts) v of
                  None \<Rightarrow> ''null'' | Some str \<Rightarrow> str),
         Date_parse = map_of js_dates,
         Number_toString = (\<lambda>n. ''0'')\<rparr>"

definition user_u1 :: ReownUser where
  "user_u1 = \<lparr>user_id = ''u1'', email = ''u1@example.org'', firstName = None,
              lastName = None, user_metadata = None\<rparr>"

definition session_s1 :: ReownSession where
  "session_s1 = \<lparr>session_id = ''s1'', userId = ''u1'',
                 session_expiresAt = JString ''1970-01-01T01:16:40.000Z'',
                 session_metadata = None\<rparr>"

definition fresh :: state where
  \<comment> \<open>a service constructed without a configuration over an empty store\<close>
  "fresh = snd (constructor js None Map.empty 0 0)"

definition signed_in :: "ReownToken \<Rightarrow> state" where
  \<comment> \<open>the fresh service after a sign-in at time 0 that the server answered with \<open>tok\<close>\<close>
  "signed_in tok =
     after (signIn js 0 fresh ''u1@example.org'' ''secret''
              (HttpSuccess \<lparr>signin_user = user_u1, signin_session = session_s1,
                             signin_token = tok\<rparr>))"

definition started_over :: "string \<Rightarrow> state" where
  \<comment> \<open>a service as its constructor leaves it at time 0 over a store that holds \<open>str\<close>\<close>
  "started_over str = snd (constructor js None [tokenStorageKey \<mapsto> str] 0 0)"

definition signed_up :: state where
  \<comment> \<open>the fresh service after a sign-up at time 0: a user and a token, no session\<close>
  "signed_up =
     after (signUp js 0 fresh ''u1@example.org'' ''secret'' None
              (HttpSuccess \<lparr>signup_user = user_u1, signup_token = token_t1\<rparr>))"

definition sign_in_t1 :: "event list" where
  \<comment> \<open>a sign-in at time 0 and its answer with the token \<^verbatim>\<open>t1\<close>\<close>
  "sign_in_t1 =
     [Call_signIn 0 ''u1@example.org'' ''secret'',
      Answer_signIn (HttpSuccess \<lparr>signin_user = user_u1, signin_session = session_s1,
                                   signin_token = token_t1\<rparr>)]"

definition sign_in_t0 :: "event list" where
  \<comment> \<open>a sign-in at time 0 and its answer with the token \<^verbatim>\<open>t0\<close>\<close>
  "sign_in_t0 =
     [Call_signIn 0 ''u1@example.org'' ''secret'',
      Answer_signIn (HttpSuccess \<lparr>signin_user = user_u1, signin_session = session_s1,
                                   signin_token = token_t0\<rparr>)]"

definition get_user_u1 :: "event list" where
  \<comment> \<open>a profile request at time 1000000 and its answer with the user \<^verbatim>\<open>u1\<close>\<close>
  "get_user_u1 =
     [Call_getUser 1000000, Answer_getUser (HttpSuccess \<lparr>response_user = user_u1\<rparr>)]"

definition restore_overtaken :: "event list" where
  \<comment> \<open>a sign-out at time 1000, and then the answer to the profile request of the constructor\<close>
  "restore_overtaken =
     [Call_signOut 1000, Answer_getUser (HttpSuccess \<lparr>response_user = user_u1\<rparr>)]"

definition blank_organization :: state where
  \<comment> \<open>a service configured with the empty string as its organization id\<close>
  "blank_organization =
     snd (constructor js
       (Some \<lparr>apiKey = ''key'', organizationId = Some [], environment = None, baseUrl = None\<rparr>)
       Map.empty 0 0)"

definition acme_organization :: state where
  \<comment> \<open>a configured service constructed over a store that holds the token \<^verbatim>\<open>t1\<close>\<close>
  "acme_organization =
     snd (constructor js
       (Some \<lparr>apiKey = ''key'', organizationId = Some ''acme'', environment = Some sandbox,
              baseUrl = None\<rparr>)
       [tokenStorageKey \<mapsto> JSON_stringify js token_t1] 0 0)"

section \<open>Properties\<close>

subsection \<open>What a token read returns and what it changes\<close>

lemma clearSession_localStorage:
  "localStorage (clearSession s) k = (if k = tokenStorageKey then None else localStorage s k)"
  by (simp add: clearSession_def)

lemma clearSession_user: "current (currentUserSubject (clearSession s)) = None"
  by (simp add: clearSession_def subject_next_def)

lemma clearSession_session: "current (currentSessionSubject (clearSession s)) = None"
  by (simp add: clearSession_def subject_next_def)

lemma getStoredToken_result:
  "fst (getStoredToken P now s) =
     (case stored_json P s of
        None \<Rightarrow> None
      | Some v \<Rightarrow> if v = JNull \<or> undatable P v \<or> expired P now v then None else Some v)"
  by (simp add: getStoredToken_def getStoredToken_try_def stored_json_def expired_def
      undatable_def property_or_throw_def split: option.splits sum.splits)

lemma getStoredToken_state:
  "snd (getStoredToken P now s) = (if stale_value_stored P now s then clearSession s else s)"
  by (simp add: getStoredToken_def getStoredToken_try_def stale_value_stored_def expired_def
      undatable_def property_or_throw_def split: option.splits sum.splits)

lemma getStoredToken_found:
  assumes "fst (getStoredToken P now s) = Some v"
  shows "snd (getStoredToken P now s) = s" and "localStorage s tokenStorageKey \<noteq> None"
  using assms
  by (auto simp add: getStoredToken_def getStoredToken_try_def property_or_throw_def
      split: option.splits if_splits sum.splits)

text \<open>
  The read at work on a stored token whose \<^verbatim>\<open>expiresAt\<close> is an object with an own
  \<^verbatim>\<open>toString\<close>: the \<^verbatim>\<open>Date\<close> constructor throws in the \<^verbatim>\<open>try\<close> block, and the
  \<^verbatim>\<open>catch\<close> clears the session and returns \<^verbatim>\<open>null\<close>.
\<close>

lemma getStoredToken_undatable:
  "getStoredToken_try js 1000000 (signed_in token_no_date) (JSON_stringify js token_no_date) =
     Inl TypeError \<and>
   getStoredToken js 1000000 (signed_in token_no_date) =
     (None, clearSession (signed_in token_no_date))"
  by (simp add:
        signed_in_def signIn_def signIn_call_def signIn_answer_def complete_def setToken_def
        or_else_def getStoredToken_def getStoredToken_try_def property_or_throw_def
        date_less_def clearSession_def subject_next_def tokenStorageKey_def getHeaders_def
        template_def requesting_def endpoint_def user_u1_def session_s1_def fresh_def
        getUser_call_def constructor_def restoreSession_def new_service_def
        with_defaults_def new_BehaviorSubject_def DEFAULT_BASE_URL_def truthy_def js_def
        js_texts_def js_dates_def token_t1_def token_t0_def token_no_string_def
        token_no_date_def)

subsection \<open>What building the headers returns and what it changes\<close>

lemma getHeaders_state: "snd (getHeaders P now s) = snd (getStoredToken P now s)"
  by (simp add: getHeaders_def Let_def split: option.splits sum.splits)

lemma getHeaders_throws:
  "(\<exists>err. fst (getHeaders P now s) = Inl err) = unprintable_token_stored P now s"
  by (auto simp add: getHeaders_def Let_def getStoredToken_result unprintable_token_stored_def
      split: option.splits sum.splits if_splits)

lemma getHeaders_thrown:
  assumes "fst (getHeaders P now s) = Inl err"
  shows "snd (getHeaders P now s) = s"
proof -
  from assms obtain v where "fst (getStoredToken P now s) = Some v"
    by (auto simp add: getHeaders_def Let_def split: option.splits sum.splits if_splits)
  then show ?thesis
    by (simp add: getHeaders_state getStoredToken_found)
qed

lemma getHeaders_authorization:
  assumes "fst (getHeaders P now s) = Inr hs"
  shows "map_of hs ''Authorization'' =
     (case stored_json P s of
        None \<Rightarrow> None
      | Some v \<Rightarrow>
          if ToBoolean v \<and> \<not> undatable P v \<and> \<not> expired P now v
          then (case template P (property v ''token'') of
                  Inl err \<Rightarrow> None
                | Inr str \<Rightarrow> Some (''Bearer '' @ str))
          else None)"
  using assms
  by (auto simp add: getHeaders_def Let_def getStoredToken_result
      split: option.splits sum.splits if_splits)

lemma requesting_state: "snd (requesting P now s verb path payload) = snd (getStoredToken P now s)"
  by (simp add: requesting_def Let_def getHeaders_state)

lemma requesting_sent:
  "(fst (requesting P now s verb path payload) = Inr req) =
     (\<exists>hs. fst (getHeaders P now s) = Inr hs \<and>
        req = \<lparr>http_method = verb, url = endpoint s path, body = payload, headers = hs\<rparr>)"
  by (auto simp add: requesting_def Let_def split: sum.splits)




lemma complete_sent:
  "(sent (complete called answer) = Some req) = (fst called = Inr req)"
  by (simp add: complete_def split: sum.splits)

subsection \<open>The values of the specification's notions\<close>

lemma property_truthy: "property v k = Some x \<Longrightarrow> ToBoolean v \<and> v \<noteq> JNull"
  by (cases v) simp_all

lemma token_shaped_truthy: "token_shaped v \<Longrightarrow> ToBoolean v"
  by (cases v) (simp_all add: token_shaped_def)

lemma token_shaped_prints:
  "token_shaped v \<Longrightarrow> \<exists>t. property v ''token'' = Some (JString t) \<and>
     template P (property v ''token'') = Inr t"
  by (auto simp add: token_shaped_def template_def split: option.splits json.splits)

lemma dated_fresh:
  assumes "expiry_date P v = Some date"
  shows "\<not> undatable P v" and "expired P now v = (date < now)"
  using assms
  by (auto simp add: expiry_date_def undatable_def expired_def date_less_def split: sum.splits)

lemma valid_accepted: "valid_token_stored P now s \<Longrightarrow> accepted_value_stored P now s"
  by (auto simp add: valid_token_stored_def accepted_value_stored_def token_shaped_truthy
      dated_fresh split: option.splits)

lemma accepted_unexpired: "accepted_value_stored P now s \<Longrightarrow> unexpired_value_stored P now s"
  by (simp add: unexpired_value_stored_def accepted_value_stored_def split: option.splits)

lemma accepted_token:
  "token_or_nothing_stored P s \<Longrightarrow> accepted_value_stored P now s = valid_token_stored P now s"
  by (auto simp add: token_or_nothing_stored_def valid_token_stored_def
      accepted_value_stored_def token_shaped_truthy dated_fresh split: option.splits)

lemma token_printable:
  "token_or_nothing_stored P s \<Longrightarrow> \<not> unprintable_token_stored P now s"
  using token_shaped_prints [of _ P]
  by (fastforce simp add: token_or_nothing_stored_def unprintable_token_stored_def
      split: option.splits)

subsection \<open>C1: what the token read returns null on, and what it clears\<close>

text \<open>
  Claim C1, as the code has it. \<^verbatim>\<open>getStoredToken\<close> returns \<^verbatim>\<open>null\<close> when the key is
  absent, when it holds the empty string, when the stored text does not parse, and
  when the parsed value has an \<^verbatim>\<open>expiresAt\<close> strictly before the current time. A
  non-empty text that does not parse or has expired is removed by \<^verbatim>\<open>clearSession\<close>
  (which also sets user and session to \<^verbatim>\<open>null\<close>), so the key is absent afterwards.
  An absent key stays absent and nothing else changes; the empty string is left in
  the store, since the guard \<^verbatim>\<open>if (!tokenStr) return null\<close> answers before any
  parsing or clearing.
\<close>

theorem getStoredToken_null_and_cleared:
  "(localStorage s tokenStorageKey = None \<longrightarrow> getStoredToken P now s = (None, s)) \<and>
   (localStorage s tokenStorageKey = Some [] \<longrightarrow> getStoredToken P now s = (None, s)) \<and>
   (\<forall>str. localStorage s tokenStorageKey = Some str \<and> str \<noteq> [] \<and> JSON_parse P str = None
      \<longrightarrow> getStoredToken P now s = (None, clearSession s)) \<and>
   (\<forall>str v. localStorage s tokenStorageKey = Some str \<and> str \<noteq> [] \<and>
        JSON_parse P str = Some v \<and> expired P now v
      \<longrightarrow> getStoredToken P now s = (None, clearSession s)) \<and>
   localStorage (clearSession s) tokenStorageKey = None"
  by (auto simp add: getStoredToken_def getStoredToken_try_def expired_def
      property_or_throw_def clearSession_localStorage split: sum.splits)

text \<open>
  The theorem at work: the token of a sign-in at time 0 that expired one second before
  the read, and a store that holds the text \<^verbatim>\<open>oops\<close>.
\<close>

theorem getStoredToken_null_and_cleared_witness:
  "getStoredToken js 1000000 (signed_in token_t0) = (None, clearSession (signed_in token_t0)) \<and>
   localStorage (clearSession (signed_in token_t0)) tokenStorageKey = None \<and>
   getStoredToken js 0 (new_service None [tokenStorageKey \<mapsto> ''oops'']) =
     (None, clearSession (new_service None [tokenStorageKey \<mapsto> ''oops'']))"
proof -
  have expired_token:
    "localStorage (signed_in token_t0) tokenStorageKey = Some (JSON_stringify js token_t0) \<and>
     JSON_stringify js token_t0 \<noteq> [] \<and>
     JSON_parse js (JSON_stringify js token_t0) = Some token_t0 \<and>
     expired js 1000000 token_t0"
    by (simp add: signed_in_def signIn_def signIn_call_def signIn_answer_def complete_def
          setToken_def or_else_def getStoredToken_def getStoredToken_try_def
          property_or_throw_def date_less_def clearSession_def subject_next_def
          tokenStorageKey_def getHeaders_def template_def requesting_def endpoint_def
          user_u1_def session_s1_def fresh_def getUser_call_def constructor_def
          restoreSession_def new_service_def with_defaults_def new_BehaviorSubject_def
          DEFAULT_BASE_URL_def truthy_def js_def js_texts_def js_dates_def token_t1_def
          token_t0_def token_no_string_def token_no_date_def expired_def)
  have no_json:
    "localStorage (new_service None [tokenStorageKey \<mapsto> ''oops'']) tokenStorageKey = Some ''oops'' \<and>
     ''oops'' \<noteq> [] \<and> JSON_parse js ''oops'' = None"
    by (simp add: new_service_def with_defaults_def new_BehaviorSubject_def DEFAULT_BASE_URL_def
          getStoredToken_def getStoredToken_try_def property_or_throw_def date_less_def
          clearSession_def subject_next_def tokenStorageKey_def js_def js_texts_def
          js_dates_def token_t1_def token_t0_def token_no_string_def token_no_date_def)
  from getStoredToken_null_and_cleared [of "signed_in token_t0" js 1000000] expired_token
  have "getStoredToken js 1000000 (signed_in token_t0) = (None, clearSession (signed_in token_t0))"
    by blast
  moreover
  from getStoredToken_null_and_cleared
         [of "new_service None [tokenStorageKey \<mapsto> ''oops'']" js 0] no_json
  have "getStoredToken js 0 (new_service None [tokenStorageKey \<mapsto> ''oops'']) =
          (None, clearSession (new_service None [tokenStorageKey \<mapsto> ''oops'']))"
    by blast
  ultimately show ?thesis by (simp add: clearSession_localStorage)
qed

text \<open>
  Where the claim as written fails: a service constructed over a store whose key holds
  the empty string. The empty string does not parse, the read returns \<^verbatim>\<open>null\<close>, and
  the key still holds the empty string afterwards.
\<close>

theorem getStoredToken_keeps_empty_string:
  "localStorage (started_over []) tokenStorageKey = Some [] \<and>
   JSON_parse js [] = None \<and>
   fst (getStoredToken js 0 (started_over [])) = None \<and>
   localStorage (snd (getStoredToken js 0 (started_over []))) tokenStorageKey = Some []"
  by (simp add: started_over_def getStoredToken_def getStoredToken_try_def property_or_throw_def
        date_less_def clearSession_def subject_next_def tokenStorageKey_def getHeaders_def
        template_def requesting_def endpoint_def getUser_call_def constructor_def
        restoreSession_def new_service_def with_defaults_def new_BehaviorSubject_def
        DEFAULT_BASE_URL_def truthy_def js_def js_texts_def js_dates_def token_t1_def
        token_t0_def token_no_string_def token_no_date_def)

subsection \<open>C2: a current user and the stored token\<close>

text \<open>
  Every call and every answer keeps \<open>user_backed\<close>, provided an answer to a profile
  request that brings a user arrives while the token's key holds a value: a token read
  either leaves the state alone or clears user and token together, the answers to
  sign-up and sign-in store a token before they set the user, and sign-out clears
  both.
\<close>

lemma user_backed_clearSession: "user_backed (clearSession s)"
  by (simp add: user_backed_def clearSession_user)

lemma user_backed_read: "user_backed s \<Longrightarrow> user_backed (snd (getStoredToken P now s))"
  by (simp add: getStoredToken_state user_backed_clearSession)

lemma user_backed_requesting:
  "user_backed s \<Longrightarrow> user_backed (snd (requesting P now s verb path payload))"
  by (simp add: requesting_state user_backed_read)

lemma user_backed_signOut_call:
  assumes "user_backed s"
  shows "user_backed (snd (signOut_call P now s))"
  using user_backed_requesting [OF assms, of P now] user_backed_clearSession [of s]
  by (simp add: signOut_call_def Let_def split: option.splits sum.splits)

lemma user_backed_isAuthenticated:
  "user_backed s \<Longrightarrow> user_backed (snd (isAuthenticated P now s))"
  using user_backed_read [of s P now]
  by (simp add: isAuthenticated_def Let_def split: option.splits)

lemma user_backed_init: "user_backed s \<Longrightarrow> user_backed (init given s)"
  by (simp add: init_def user_backed_def)

lemma user_backed_signUp_answer:
  "user_backed s \<Longrightarrow> user_backed (snd (signUp_answer P http s))"
  by (cases http) (simp_all add: signUp_answer_def Let_def user_backed_def setToken_def)

lemma user_backed_signIn_answer:
  "user_backed s \<Longrightarrow> user_backed (snd (signIn_answer P http s))"
  by (cases http) (simp_all add: signIn_answer_def Let_def user_backed_def setToken_def)

lemma user_backed_signOut_answer: "user_backed (snd (signOut_answer http s))"
  by (cases http) (simp_all add: signOut_answer_def user_backed_clearSession)

lemma user_backed_getUser_answer:
  "user_backed s \<Longrightarrow> profile_backed (Answer_getUser http) s \<Longrightarrow>
     user_backed (snd (getUser_answer http s))"
  by (cases http) (simp_all add: getUser_answer_def user_backed_def)

lemma user_backed_updateUser_answer:
  "user_backed s \<Longrightarrow> profile_backed (Answer_updateUser http) s \<Longrightarrow>
     user_backed (snd (updateUser_answer http s))"
  by (cases http) (simp_all add: updateUser_answer_def user_backed_def)

lemma user_backed_requestPasswordReset_answer:
  "user_backed s \<Longrightarrow> user_backed (snd (requestPasswordReset_answer http s))"
  by (cases http) (simp_all add: requestPasswordReset_answer_def)

lemma user_backed_resetPassword_answer:
  "user_backed s \<Longrightarrow> user_backed (snd (resetPassword_answer http s))"
  by (cases http) (simp_all add: resetPassword_answer_def)

lemma user_backed_react:
  "user_backed s \<Longrightarrow> profile_backed ev s \<Longrightarrow> user_backed (react P ev s)"
  by (cases ev)
    (simp_all add: user_backed_init user_backed_requesting user_backed_signOut_call
      user_backed_isAuthenticated user_backed_read user_backed_signUp_answer
      user_backed_signIn_answer user_backed_signOut_answer user_backed_getUser_answer
      user_backed_updateUser_answer user_backed_requestPasswordReset_answer
      user_backed_resetPassword_answer signUp_call_def signIn_call_def getUser_call_def
      updateUser_call_def requestPasswordReset_call_def resetPassword_call_def)

lemma user_backed_run:
  "user_backed s \<Longrightarrow> profiles_backed P evs s \<Longrightarrow> user_backed (run P evs s)"
  by (induction evs arbitrary: s) (simp_all add: user_backed_react)

lemma user_backed_new_service: "user_backed (new_service given storage)"
  by (simp add: new_service_def user_backed_def new_BehaviorSubject_def)

lemma user_backed_constructor: "user_backed (snd (constructor P given storage now now'))"
proof -
  let ?s0 = "new_service given storage"
  have read: "user_backed (snd (getStoredToken P now ?s0))"
    by (rule user_backed_read) (rule user_backed_new_service)
  then have "user_backed (snd (getUser_call P now' (snd (getStoredToken P now ?s0))))"
    by (simp add: getUser_call_def user_backed_requesting)
  with read show ?thesis
    by (simp add: constructor_def restoreSession_def Let_def split: sum.splits)
qed

text \<open>
  Claim C2. Take a service as its constructor leaves it, with the profile request of
  \<^verbatim>\<open>restoreSession\<close> under way if it sent one, and then any sequence of calls of
  \<^verbatim>\<open>init\<close>, \<^verbatim>\<open>signUp\<close>, \<^verbatim>\<open>signIn\<close>, \<^verbatim>\<open>signOut\<close>, \<^verbatim>\<open>getUser\<close>,
  \<^verbatim>\<open>updateUser\<close>, the two password-reset operations, \<^verbatim>\<open>isAuthenticated\<close> and
  the token read, made at any times, and of answers to their requests, with any
  outcomes and in any order between and after the calls. If every answer to a
  \<^verbatim>\<open>getUser\<close> or \<^verbatim>\<open>updateUser\<close> request that brings a user arrives while the
  token's key holds a value, then in the state reached the current user is non-null
  only if the token's key holds a value. That value need not be a token that has not
  expired: expiry is found by the next token read, not when it happens.
\<close>

theorem user_only_with_stored_token:
  assumes "profiles_backed P evs (snd (constructor P given storage t t'))"
    and "current (currentUserSubject (run P evs (snd (constructor P given storage t t')))) \<noteq>
      None"
  shows "localStorage (run P evs (snd (constructor P given storage t t'))) tokenStorageKey \<noteq>
    None"
proof -
  have "user_backed (run P evs (snd (constructor P given storage t t')))"
    using assms(1) by (simp add: user_backed_constructor user_backed_run)
  with assms(2) show ?thesis by (auto simp add: user_backed_def)
qed

text \<open>
  A fresh service, a sign-in that the server answers with a token, and a profile
  request made and answered while that token is stored.
\<close>

theorem user_only_with_stored_token_witness:
  "profiles_backed js (sign_in_t1 @ get_user_u1) (snd (constructor js None Map.empty 0 0)) \<and>
   current (currentUserSubject
     (run js (sign_in_t1 @ get_user_u1) (snd (constructor js None Map.empty 0 0)))) =
     Some user_u1 \<and>
   localStorage (run js (sign_in_t1 @ get_user_u1) (snd (constructor js None Map.empty 0 0)))
     tokenStorageKey \<noteq> None"
proof -
  have start: "snd (constructor js None Map.empty 0 0) = new_service None Map.empty"
    by (simp add: getStoredToken_def getStoredToken_try_def property_or_throw_def date_less_def
          clearSession_def subject_next_def tokenStorageKey_def getHeaders_def template_def
          requesting_def endpoint_def getUser_call_def constructor_def restoreSession_def
          new_service_def with_defaults_def new_BehaviorSubject_def DEFAULT_BASE_URL_def
          truthy_def)
  have stored: "localStorage (run js sign_in_t1 (new_service None Map.empty)) tokenStorageKey =
      Some (JSON_stringify js token_t1)"
    by (simp add: sign_in_t1_def signIn_call_def signIn_answer_def setToken_def new_service_def
          with_defaults_def new_BehaviorSubject_def DEFAULT_BASE_URL_def getStoredToken_def
          getStoredToken_try_def property_or_throw_def date_less_def clearSession_def
          subject_next_def tokenStorageKey_def js_def js_texts_def js_dates_def token_t1_def
          token_t0_def token_no_string_def token_no_date_def)
  then have read: "getStoredToken js 1000000 (run js sign_in_t1 (new_service None Map.empty)) =
      (Some token_t1, run js sign_in_t1 (new_service None Map.empty))"
    by (simp add: getStoredToken_def getStoredToken_try_def property_or_throw_def date_less_def
          clearSession_def subject_next_def tokenStorageKey_def js_def js_texts_def
          js_dates_def token_t1_def token_t0_def token_no_string_def token_no_date_def)
  have asked: "react js (Call_getUser 1000000) (run js sign_in_t1 (new_service None Map.empty)) =
      run js sign_in_t1 (new_service None Map.empty)"
    using read by (simp add: getUser_call_def requesting_state)
  have continued: "run P (evs @ evs') s = run P evs' (run P evs s)" for P evs evs' s
    by (induction evs arbitrary: s) simp_all
  have backed_first: "profiles_backed js sign_in_t1 s" for s
    by (simp add: sign_in_t1_def)
  have backed_more: "profiles_backed P (evs @ evs') s =
      (profiles_backed P evs s \<and> profiles_backed P evs' (run P evs s))" for P evs evs' s
    by (induction evs arbitrary: s) simp_all
  have backed: "profiles_backed js (sign_in_t1 @ get_user_u1)
      (snd (constructor js None Map.empty 0 0))"
    using stored asked by (simp add: backed_more backed_first start get_user_u1_def)
  have user: "current (currentUserSubject
      (run js (sign_in_t1 @ get_user_u1) (snd (constructor js None Map.empty 0 0)))) =
      Some user_u1"
    using asked
    by (simp add: continued start get_user_u1_def getUser_answer_def subject_next_def)
  then have "current (currentUserSubject
      (run js (sign_in_t1 @ get_user_u1) (snd (constructor js None Map.empty 0 0)))) \<noteq> None"
    by simp
  from user_only_with_stored_token [OF backed this] backed user
  show ?thesis by simp
qed

text \<open>
  Not in every reachable state, and not with a token that has not expired. On a fresh
  service with an empty store, a \<^verbatim>\<open>getUser\<close> that the server answers with a user
  sets the current user, and no token is stored. After a sign-in at time 0 whose token
  is valid then, the user is still set at time 1000000, before any other call, when
  the stored token has expired. And a service constructed over a stored valid token
  sends its profile request with the bearer token; the user signs out before the
  answer comes; the answer then sets the current user, and no token is stored.
\<close>

theorem user_without_valid_token:
  "current (currentUserSubject (run js get_user_u1 fresh)) = Some user_u1 \<and>
   localStorage (run js get_user_u1 fresh) tokenStorageKey = None \<and>
   current (currentUserSubject (run js sign_in_t0 fresh)) = Some user_u1 \<and>
   valid_token_stored js 0 (run js sign_in_t0 fresh) \<and>
   \<not> unexpired_value_stored js 1000000 (run js sign_in_t0 fresh) \<and>
   (\<exists>req. fst (constructor js None [tokenStorageKey \<mapsto> JSON_stringify js token_t1] 0 0) =
        Inr (Some req) \<and>
      map_of (headers req) ''Authorization'' = Some ''Bearer t1'') \<and>
   current (currentUserSubject
     (run js restore_overtaken (started_over (JSON_stringify js token_t1)))) = Some user_u1 \<and>
   localStorage (run js restore_overtaken (started_over (JSON_stringify js token_t1)))
     tokenStorageKey = None"
proof -
  have start: "fresh = new_service None Map.empty"
    by (simp add: fresh_def getStoredToken_def getStoredToken_try_def property_or_throw_def
          date_less_def clearSession_def subject_next_def tokenStorageKey_def getHeaders_def
          template_def requesting_def endpoint_def getUser_call_def constructor_def
          restoreSession_def new_service_def with_defaults_def new_BehaviorSubject_def
          DEFAULT_BASE_URL_def truthy_def js_def js_texts_def js_dates_def token_t1_def
          token_t0_def token_no_string_def token_no_date_def)
  have unasked: "current (currentUserSubject (run js get_user_u1 fresh)) = Some user_u1 \<and>
      localStorage (run js get_user_u1 fresh) tokenStorageKey = None"
    by (simp add: start get_user_u1_def getUser_call_def getUser_answer_def requesting_state
          subject_next_def new_service_def with_defaults_def new_BehaviorSubject_def
          DEFAULT_BASE_URL_def getStoredToken_def getStoredToken_try_def
          property_or_throw_def date_less_def clearSession_def tokenStorageKey_def js_def
          js_texts_def js_dates_def token_t1_def token_t0_def token_no_string_def
          token_no_date_def)
  have signed: "current (currentUserSubject (run js sign_in_t0 fresh)) = Some user_u1 \<and>
      localStorage (run js sign_in_t0 fresh) tokenStorageKey = Some (JSON_stringify js token_t0)"
    by (simp add: start sign_in_t0_def signIn_call_def signIn_answer_def requesting_state
          setToken_def subject_next_def new_service_def with_defaults_def
          new_BehaviorSubject_def DEFAULT_BASE_URL_def getStoredToken_def
          getStoredToken_try_def property_or_throw_def date_less_def clearSession_def
          tokenStorageKey_def js_def js_texts_def js_dates_def token_t1_def token_t0_def
          token_no_string_def token_no_date_def)
  then have valid: "valid_token_stored js 0 (run js sign_in_t0 fresh)"
    by (simp add: valid_token_stored_def stored_json_def token_shaped_def expiry_date_def js_def
          js_texts_def js_dates_def token_t1_def token_t0_def token_no_string_def
          token_no_date_def)
  from signed have expired: "\<not> unexpired_value_stored js 1000000 (run js sign_in_t0 fresh)"
    by (simp add: unexpired_value_stored_def stored_json_def expired_def date_less_def js_def
          js_texts_def js_dates_def token_t1_def token_t0_def token_no_string_def
          token_no_date_def)
  have restored:
    "\<exists>req. fst (constructor js None [tokenStorageKey \<mapsto> JSON_stringify js token_t1] 0 0) =
        Inr (Some req) \<and>
      map_of (headers req) ''Authorization'' = Some ''Bearer t1''"
    by (simp add: getStoredToken_def getStoredToken_try_def property_or_throw_def date_less_def
          clearSession_def subject_next_def tokenStorageKey_def getHeaders_def template_def
          requesting_def endpoint_def getUser_call_def constructor_def restoreSession_def
          new_service_def with_defaults_def new_BehaviorSubject_def DEFAULT_BASE_URL_def
          truthy_def js_def js_texts_def js_dates_def token_t1_def token_t0_def
          token_no_string_def token_no_date_def)
  have under_way:
    "current (currentSessionSubject (started_over (JSON_stringify js token_t1))) = None"
    by (simp add:
          started_over_def getStoredToken_def getStoredToken_try_def property_or_throw_def
          date_less_def clearSession_def subject_next_def tokenStorageKey_def getHeaders_def
          template_def requesting_def endpoint_def getUser_call_def constructor_def
          restoreSession_def new_service_def with_defaults_def new_BehaviorSubject_def
          DEFAULT_BASE_URL_def truthy_def js_def js_texts_def js_dates_def token_t1_def
          token_t0_def token_no_string_def token_no_date_def)
  have overtaken:
    "current (currentUserSubject
       (run js restore_overtaken (started_over (JSON_stringify js token_t1)))) = Some user_u1 \<and>
     localStorage (run js restore_overtaken (started_over (JSON_stringify js token_t1)))
       tokenStorageKey = None"
    using under_way
    by (simp add: restore_overtaken_def signOut_call_def getUser_answer_def
        clearSession_localStorage subject_next_def)
  from unasked signed valid expired restored overtaken show ?thesis by simp
qed

subsection \<open>C3: a successful sign-in\<close>

lemma new_Date_defined: "new_Date P r = Inr (Some t) \<Longrightarrow> r \<noteq> None"
  by (cases r) simp_all

text \<open>
  What the answer to a sign-in request does when it is a success, in whatever state it
  arrives.
\<close>

lemma signIn_answer_success:
  assumes "JSON_stringify P (signin_token response) \<noteq> []"
    and "JSON_parse P (JSON_stringify P (signin_token response)) = Some (signin_token response)"
    and "new_Date P (property (signin_token response) ''expiresAt'') = Inr (Some expiry)"
    and "now' \<le> expiry"
  shows "fst (signIn_answer P (HttpSuccess response) s) = Inr (signin_session response) \<and>
     current (currentUserSubject (snd (signIn_answer P (HttpSuccess response) s))) =
       Some (signin_user response) \<and>
     current (currentSessionSubject (snd (signIn_answer P (HttpSuccess response) s))) =
       Some (signin_session response) \<and>
     localStorage (snd (signIn_answer P (HttpSuccess response) s)) tokenStorageKey =
       Some (JSON_stringify P (signin_token response)) \<and>
     getStoredToken P now' (snd (signIn_answer P (HttpSuccess response) s)) =
       (Some (signin_token response), snd (signIn_answer P (HttpSuccess response) s)) \<and>
     isAuthenticated P now' (snd (signIn_answer P (HttpSuccess response) s)) =
       (True, snd (signIn_answer P (HttpSuccess response) s))"
proof -
  let ?s' = "snd (signIn_answer P (HttpSuccess response) s)"
  let ?tok = "signin_token response"
  have stored: "localStorage ?s' tokenStorageKey = Some (JSON_stringify P ?tok)"
    by (simp add: signIn_answer_def Let_def setToken_def)
  have user: "current (currentUserSubject ?s') = Some (signin_user response)"
    by (simp add: signIn_answer_def Let_def subject_next_def)
  have session: "current (currentSessionSubject ?s') = Some (signin_session response)"
    by (simp add: signIn_answer_def Let_def subject_next_def)
  from assms(3) obtain x where x: "property ?tok ''expiresAt'' = Some x"
    using new_Date_defined by fastforce
  then have truthy_tok: "ToBoolean ?tok" and not_null: "?tok \<noteq> JNull"
    using property_truthy by blast+
  from stored assms not_null
  have read: "getStoredToken P now' ?s' = (Some ?tok, ?s')"
    by (simp add: getStoredToken_def getStoredToken_try_def property_or_throw_def date_less_def)
  with user truthy_tok have "isAuthenticated P now' ?s' = (True, ?s')"
    by (simp add: isAuthenticated_def truthy_def)
  moreover have "fst (signIn_answer P (HttpSuccess response) s) = Inr (signin_session response)"
    by (simp add: signIn_answer_def Let_def)
  ultimately show ?thesis using stored user session read by simp
qed

text \<open>
  Claim C3. Let the response to a sign-in request hold a user, a session and a token
  whose \<^verbatim>\<open>expiresAt\<close> reads as a date that is not before the time \<open>now'\<close> (in
  particular one after it), on a platform where \<^verbatim>\<open>JSON.stringify\<close> gives a
  non-empty text for this token and \<^verbatim>\<open>JSON.parse\<close> reads the token back from it.
  Then, in whatever state \<open>s0\<close> the response arrives, the observable delivers the
  session of the response, the current user and the current session are those of the
  response, the store holds the text of the token, a token read at \<open>now'\<close> returns
  the token, and \<^verbatim>\<open>isAuthenticated()\<close> at \<open>now'\<close> returns true; neither changes the
  state. The same holds of a \<^verbatim>\<open>signIn\<close> that is called in any state \<open>s\<close>, sends
  its request and gets this response before anything else happens. (A call that
  throws while it builds its headers sends no request and has no response.)
\<close>

theorem signIn_success:
  assumes "JSON_stringify P (signin_token response) \<noteq> []"
    and "JSON_parse P (JSON_stringify P (signin_token response)) = Some (signin_token response)"
    and "new_Date P (property (signin_token response) ''expiresAt'') = Inr (Some expiry)"
    and "now' \<le> expiry"
  shows "(fst (signIn_answer P (HttpSuccess response) s0) = Inr (signin_session response) \<and>
      current (currentUserSubject (snd (signIn_answer P (HttpSuccess response) s0))) =
        Some (signin_user response) \<and>
      current (currentSessionSubject (snd (signIn_answer P (HttpSuccess response) s0))) =
        Some (signin_session response) \<and>
      localStorage (snd (signIn_answer P (HttpSuccess response) s0)) tokenStorageKey =
        Some (JSON_stringify P (signin_token response)) \<and>
      getStoredToken P now' (snd (signIn_answer P (HttpSuccess response) s0)) =
        (Some (signin_token response), snd (signIn_answer P (HttpSuccess response) s0)) \<and>
      isAuthenticated P now' (snd (signIn_answer P (HttpSuccess response) s0)) =
        (True, snd (signIn_answer P (HttpSuccess response) s0))) \<and>
     (sent (signIn P now s e p (HttpSuccess response)) \<noteq> None \<longrightarrow>
      outcome (signIn P now s e p (HttpSuccess response)) = Inr (signin_session response) \<and>
      current (currentUserSubject (after (signIn P now s e p (HttpSuccess response)))) =
        Some (signin_user response) \<and>
      current (currentSessionSubject (after (signIn P now s e p (HttpSuccess response)))) =
        Some (signin_session response) \<and>
      localStorage (after (signIn P now s e p (HttpSuccess response))) tokenStorageKey =
        Some (JSON_stringify P (signin_token response)) \<and>
      getStoredToken P now' (after (signIn P now s e p (HttpSuccess response))) =
        (Some (signin_token response), after (signIn P now s e p (HttpSuccess response))) \<and>
      isAuthenticated P now' (after (signIn P now s e p (HttpSuccess response))) =
        (True, after (signIn P now s e p (HttpSuccess response))))"
proof -
  note answered = signIn_answer_success [OF assms]
  have "sent (signIn P now s e p (HttpSuccess response)) \<noteq> None \<Longrightarrow>
      outcome (signIn P now s e p (HttpSuccess response)) =
        fst (signIn_answer P (HttpSuccess response) (snd (signIn_call P now s e p))) \<and>
      after (signIn P now s e p (HttpSuccess response)) =
        snd (signIn_answer P (HttpSuccess response) (snd (signIn_call P now s e p)))"
    by (simp add: signIn_def complete_def split: sum.splits)
  with answered [of s0] answered [of "snd (signIn_call P now s e p)"]
  show ?thesis by simp
qed

text \<open>
  The scenario of the specification: the response holds the user \<^verbatim>\<open>u1\<close>, the
  session \<^verbatim>\<open>s1\<close> and the token \<^verbatim>\<open>t1\<close> that expires an hour after the check.
\<close>

theorem signIn_success_witness:
  "user_id user_u1 = ''u1'' \<and>
   sent (signIn js 0 fresh ''u1@example.org'' ''secret''
     (HttpSuccess \<lparr>signin_user = user_u1, signin_session = session_s1,
                    signin_token = token_t1\<rparr>)) \<noteq> None \<and>
   current (currentUserSubject (signed_in token_t1)) = Some user_u1 \<and>
   current (currentSessionSubject (signed_in token_t1)) = Some session_s1 \<and>
   localStorage (signed_in token_t1) tokenStorageKey = Some (JSON_stringify js token_t1) \<and>
   isAuthenticated js 1000000 (signed_in token_t1) = (True, signed_in token_t1)"
proof -
  let ?response =
    "\<lparr>signin_user = user_u1, signin_session = session_s1, signin_token = token_t1\<rparr>"
  have text_given: "JSON_stringify js (signin_token ?response) \<noteq> []"
    by (simp add: js_def js_texts_def js_dates_def token_t1_def token_t0_def token_no_string_def
          token_no_date_def)
  have read_back:
    "JSON_parse js (JSON_stringify js (signin_token ?response)) = Some (signin_token ?response)"
    by (simp add: js_def js_texts_def js_dates_def token_t1_def token_t0_def token_no_string_def
          token_no_date_def)
  have expiry:
    "new_Date js (property (signin_token ?response) ''expiresAt'') = Inr (Some 4600000)"
    by (simp add: js_def js_texts_def js_dates_def token_t1_def token_t0_def token_no_string_def
          token_no_date_def)
  have later: "(1000000::int) \<le> 4600000"
    by simp
  have requested: "sent (signIn js 0 fresh ''u1@example.org'' ''secret'' (HttpSuccess ?response))
      \<noteq> None"
    by (simp add:
          signIn_def signIn_call_def signIn_answer_def complete_def setToken_def or_else_def
          getStoredToken_def getStoredToken_try_def property_or_throw_def date_less_def
          clearSession_def subject_next_def tokenStorageKey_def getHeaders_def template_def
          requesting_def endpoint_def fresh_def getUser_call_def constructor_def
          restoreSession_def new_service_def with_defaults_def new_BehaviorSubject_def
          DEFAULT_BASE_URL_def truthy_def js_def js_texts_def js_dates_def token_t1_def
          token_t0_def token_no_string_def token_no_date_def)
  from signIn_success [OF text_given read_back expiry later,
      of fresh 0 fresh "''u1@example.org''" "''secret''"] requested
  show ?thesis by (simp add: signed_in_def user_u1_def)
qed

subsection \<open>C4: sign-out clears and does not fail\<close>






subsection \<open>C5: a sign-up or sign-in that fails\<close>





subsection \<open>C6: the authentication check\<close>

lemma isAuthenticated_result:
  "fst (isAuthenticated P now s) =
     (current (currentUserSubject s) \<noteq> None \<and> accepted_value_stored P now s)"
  by (auto simp add: isAuthenticated_def Let_def getStoredToken_result truthy_def
      accepted_value_stored_def split: option.splits)

lemma isAuthenticated_state:
  "snd (isAuthenticated P now s) =
     (if current (currentUserSubject s) \<noteq> None \<and> stale_value_stored P now s
      then clearSession s else s)"
  by (simp add: isAuthenticated_def Let_def getStoredToken_state split: option.splits)

text \<open>
  Claim C6. In every state whose key is absent or holds the empty string, a text that
  does not parse, or a token whose \<^verbatim>\<open>expiresAt\<close> reads as a date,
  \<^verbatim>\<open>isAuthenticated()\<close> returns true if and only if the current user is non-null
  and a currently-valid token is stored: one that is present, parses, and has an expiry
  date that is not before the current time. In every state it returns true only if
  the current user is non-null and a present, parseable, non-expired value is stored,
  and it returns true whenever the current user is non-null and a valid token is
  stored; the shape of a parsed value is not looked at. The check re-reads the store
  and does not throw: with a user set and a non-empty stored value that does not parse,
  is \<^verbatim>\<open>null\<close>, has an \<^verbatim>\<open>expiresAt\<close> of which no date can be made, or has
  expired, it clears the session; in every other case it changes nothing.
\<close>

theorem isAuthenticated_valid_token:
  "(token_or_nothing_stored P s \<longrightarrow>
      fst (isAuthenticated P now s) =
        (current (currentUserSubject s) \<noteq> None \<and> valid_token_stored P now s)) \<and>
   (fst (isAuthenticated P now s) \<longrightarrow>
      current (currentUserSubject s) \<noteq> None \<and> unexpired_value_stored P now s) \<and>
   (current (currentUserSubject s) \<noteq> None \<and> valid_token_stored P now s \<longrightarrow>
      fst (isAuthenticated P now s)) \<and>
   snd (isAuthenticated P now s) =
     (if current (currentUserSubject s) \<noteq> None \<and> stale_value_stored P now s
      then clearSession s else s)"
  using accepted_token [of P s now] valid_accepted [of P now s] accepted_unexpired [of P now s]
  by (auto simp add: isAuthenticated_result isAuthenticated_state)

text \<open>
  The signed-in user of the scenario, asked while the token is valid and asked with
  the token that has expired.
\<close>

theorem isAuthenticated_valid_token_witness:
  "valid_token_stored js 1000000 (signed_in token_t1) \<and>
   fst (isAuthenticated js 1000000 (signed_in token_t1)) = True \<and>
   snd (isAuthenticated js 1000000 (signed_in token_t1)) = signed_in token_t1 \<and>
   stale_value_stored js 1000000 (signed_in token_t0) \<and>
   fst (isAuthenticated js 1000000 (signed_in token_t0)) = False \<and>
   snd (isAuthenticated js 1000000 (signed_in token_t0)) = clearSession (signed_in token_t0)"
proof -
  have valid: "valid_token_stored js 1000000 (signed_in token_t1)"
    by (simp add: signed_in_def signIn_def signIn_call_def signIn_answer_def complete_def
          setToken_def or_else_def getStoredToken_def getStoredToken_try_def
          property_or_throw_def date_less_def clearSession_def subject_next_def
          tokenStorageKey_def getHeaders_def template_def requesting_def endpoint_def
          user_u1_def session_s1_def fresh_def getUser_call_def constructor_def
          restoreSession_def new_service_def with_defaults_def new_BehaviorSubject_def
          DEFAULT_BASE_URL_def truthy_def js_def js_texts_def js_dates_def token_t1_def
          token_t0_def token_no_string_def token_no_date_def valid_token_stored_def
          stored_json_def token_shaped_def expiry_date_def)
  have token1: "token_or_nothing_stored js (signed_in token_t1)"
    by (simp add: token_or_nothing_stored_def signed_in_def signIn_def signIn_call_def
          signIn_answer_def complete_def setToken_def or_else_def getStoredToken_def
          getStoredToken_try_def property_or_throw_def date_less_def clearSession_def
          subject_next_def tokenStorageKey_def getHeaders_def template_def requesting_def
          endpoint_def user_u1_def session_s1_def fresh_def getUser_call_def constructor_def
          restoreSession_def new_service_def with_defaults_def new_BehaviorSubject_def
          DEFAULT_BASE_URL_def truthy_def js_def js_texts_def js_dates_def token_t1_def
          token_t0_def token_no_string_def token_no_date_def valid_token_stored_def
          stored_json_def token_shaped_def expiry_date_def)
  have fresh_token: "\<not> stale_value_stored js 1000000 (signed_in token_t1)"
    by (simp add: signed_in_def signIn_def signIn_call_def signIn_answer_def complete_def
          setToken_def or_else_def getStoredToken_def getStoredToken_try_def
          property_or_throw_def date_less_def clearSession_def subject_next_def
          tokenStorageKey_def getHeaders_def template_def requesting_def endpoint_def
          user_u1_def session_s1_def fresh_def getUser_call_def constructor_def
          restoreSession_def new_service_def with_defaults_def new_BehaviorSubject_def
          DEFAULT_BASE_URL_def truthy_def js_def js_texts_def js_dates_def token_t1_def
          token_t0_def token_no_string_def token_no_date_def stale_value_stored_def
          expired_def undatable_def)
  have user1: "current (currentUserSubject (signed_in token_t1)) = Some user_u1"
    by (simp add: signed_in_def signIn_def signIn_call_def signIn_answer_def complete_def
          setToken_def or_else_def getStoredToken_def getStoredToken_try_def
          property_or_throw_def date_less_def clearSession_def subject_next_def
          tokenStorageKey_def getHeaders_def template_def requesting_def endpoint_def
          user_u1_def session_s1_def fresh_def getUser_call_def constructor_def
          restoreSession_def new_service_def with_defaults_def new_BehaviorSubject_def
          DEFAULT_BASE_URL_def truthy_def js_def js_texts_def js_dates_def token_t1_def
          token_t0_def token_no_string_def token_no_date_def)
  have stale: "stale_value_stored js 1000000 (signed_in token_t0)"
    by (simp add: signed_in_def signIn_def signIn_call_def signIn_answer_def complete_def
          setToken_def or_else_def getStoredToken_def getStoredToken_try_def
          property_or_throw_def date_less_def clearSession_def subject_next_def
          tokenStorageKey_def getHeaders_def template_def requesting_def endpoint_def
          user_u1_def session_s1_def fresh_def getUser_call_def constructor_def
          restoreSession_def new_service_def with_defaults_def new_BehaviorSubject_def
          DEFAULT_BASE_URL_def truthy_def js_def js_texts_def js_dates_def token_t1_def
          token_t0_def token_no_string_def token_no_date_def stale_value_stored_def
          expired_def undatable_def)
  have token0: "token_or_nothing_stored js (signed_in token_t0)"
    by (simp add: token_or_nothing_stored_def signed_in_def signIn_def signIn_call_def
          signIn_answer_def complete_def setToken_def or_else_def getStoredToken_def
          getStoredToken_try_def property_or_throw_def date_less_def clearSession_def
          subject_next_def tokenStorageKey_def getHeaders_def template_def requesting_def
          endpoint_def user_u1_def session_s1_def fresh_def getUser_call_def constructor_def
          restoreSession_def new_service_def with_defaults_def new_BehaviorSubject_def
          DEFAULT_BASE_URL_def truthy_def js_def js_texts_def js_dates_def token_t1_def
          token_t0_def token_no_string_def token_no_date_def valid_token_stored_def
          stored_json_def token_shaped_def expiry_date_def)
  have invalid: "\<not> valid_token_stored js 1000000 (signed_in token_t0)"
    by (simp add: signed_in_def signIn_def signIn_call_def signIn_answer_def complete_def
          setToken_def or_else_def getStoredToken_def getStoredToken_try_def
          property_or_throw_def date_less_def clearSession_def subject_next_def
          tokenStorageKey_def getHeaders_def template_def requesting_def endpoint_def
          user_u1_def session_s1_def fresh_def getUser_call_def constructor_def
          restoreSession_def new_service_def with_defaults_def new_BehaviorSubject_def
          DEFAULT_BASE_URL_def truthy_def js_def js_texts_def js_dates_def token_t1_def
          token_t0_def token_no_string_def token_no_date_def valid_token_stored_def
          stored_json_def token_shaped_def expiry_date_def)
  have user0: "current (currentUserSubject (signed_in token_t0)) = Some user_u1"
    by (simp add: signed_in_def signIn_def signIn_call_def signIn_answer_def complete_def
          setToken_def or_else_def getStoredToken_def getStoredToken_try_def
          property_or_throw_def date_less_def clearSession_def subject_next_def
          tokenStorageKey_def getHeaders_def template_def requesting_def endpoint_def
          user_u1_def session_s1_def fresh_def getUser_call_def constructor_def
          restoreSession_def new_service_def with_defaults_def new_BehaviorSubject_def
          DEFAULT_BASE_URL_def truthy_def js_def js_texts_def js_dates_def token_t1_def
          token_t0_def token_no_string_def token_no_date_def)
  from isAuthenticated_valid_token [of js "signed_in token_t1" 1000000]
       isAuthenticated_valid_token [of js "signed_in token_t0" 1000000]
       valid token1 fresh_token user1 stale token0 invalid user0
  show ?thesis by simp
qed

text \<open>
  Where the claim as written fails, whichever way "a currently-valid token" is read.
  After a sign-in answered with the empty object as token the store holds \<^verbatim>\<open>{}\<close>,
  which is no token, and the check is true. After one answered with the number 0 the
  store holds \<^verbatim>\<open>0\<close>, which is present, parses and has not expired, and the check
  is false.
\<close>

theorem isAuthenticated_not_token_validity:
  "current (currentUserSubject (signed_in (JObject []))) = Some user_u1 \<and>
   localStorage (signed_in (JObject [])) tokenStorageKey = Some ''{}'' \<and>
   \<not> valid_token_stored js 1000000 (signed_in (JObject [])) \<and>
   fst (isAuthenticated js 1000000 (signed_in (JObject []))) = True \<and>
   current (currentUserSubject (signed_in (JNumber (Finite 0)))) = Some user_u1 \<and>
   localStorage (signed_in (JNumber (Finite 0))) tokenStorageKey = Some ''0'' \<and>
   unexpired_value_stored js 1000000 (signed_in (JNumber (Finite 0))) \<and>
   fst (isAuthenticated js 1000000 (signed_in (JNumber (Finite 0)))) = False"
  by (simp add:
        signed_in_def signIn_def signIn_call_def signIn_answer_def complete_def setToken_def
        or_else_def getStoredToken_def getStoredToken_try_def property_or_throw_def
        date_less_def clearSession_def subject_next_def tokenStorageKey_def getHeaders_def
        template_def requesting_def endpoint_def user_u1_def session_s1_def fresh_def
        getUser_call_def constructor_def restoreSession_def new_service_def
        with_defaults_def new_BehaviorSubject_def DEFAULT_BASE_URL_def truthy_def js_def
        js_texts_def js_dates_def token_t1_def token_t0_def token_no_string_def
        token_no_date_def isAuthenticated_def valid_token_stored_def stored_json_def
        token_shaped_def expiry_date_def unexpired_value_stored_def expired_def)

subsection \<open>C7: stored values that are not tokens\<close>

text \<open>
  Claim C7, as the code has it. For a stored text that is empty, that does not parse,
  that is the JSON \<^verbatim>\<open>null\<close>, or whose \<^verbatim>\<open>expiresAt\<close> is strictly before the
  current time, \<^verbatim>\<open>getStoredToken\<close> returns \<^verbatim>\<open>null\<close>. No stored value makes the
  read throw: an exception of the \<^verbatim>\<open>try\<close> block (the \<^verbatim>\<open>SyntaxError\<close> of the
  parse, the \<^verbatim>\<open>TypeError\<close> of reading a property of \<^verbatim>\<open>null\<close> or of making a
  date of an object that has no string) ends in the \<^verbatim>\<open>catch\<close>, which clears the
  session and returns \<^verbatim>\<open>null\<close>. The result of the
  parse is cast, not checked: that a text is not the serialisation of a token does
  not by itself make the read return \<^verbatim>\<open>null\<close>.
\<close>

theorem getStoredToken_null_cases:
  "(\<forall>str. localStorage s tokenStorageKey = Some str \<and>
       (str = [] \<or> JSON_parse P str = None \<or> JSON_parse P str = Some JNull \<or>
        (\<exists>v. JSON_parse P str = Some v \<and> expired P now v))
      \<longrightarrow> fst (getStoredToken P now s) = None) \<and>
   (\<forall>str err. localStorage s tokenStorageKey = Some str \<and> str \<noteq> [] \<and>
       getStoredToken_try P now s str = Inl err
      \<longrightarrow> getStoredToken P now s = (None, clearSession s))"
proof -
  have "fst (getStoredToken P now s) = None"
    if "localStorage s tokenStorageKey = Some str"
      and "str = [] \<or> JSON_parse P str = None \<or> JSON_parse P str = Some JNull \<or>
        (\<exists>v. JSON_parse P str = Some v \<and> expired P now v)" for str
    using that by (auto simp add: getStoredToken_result stored_json_def)
  moreover have "getStoredToken P now s = (None, clearSession s)"
    if "localStorage s tokenStorageKey = Some str" and "str \<noteq> []"
      and "getStoredToken_try P now s str = Inl err" for str err
    using that by (simp add: getStoredToken_def)
  ultimately show ?thesis by blast
qed

text \<open>
  The two parts at work: a store that holds the text \<^verbatim>\<open>null\<close>, and a store that
  holds the text \<^verbatim>\<open>oops\<close>.
\<close>

theorem getStoredToken_null_cases_witness:
  "fst (getStoredToken js 0 (new_service None [tokenStorageKey \<mapsto> ''null''])) = None \<and>
   getStoredToken js 0 (new_service None [tokenStorageKey \<mapsto> ''oops'']) =
     (None, clearSession (new_service None [tokenStorageKey \<mapsto> ''oops'']))"
proof -
  have json_null:
    "localStorage (new_service None [tokenStorageKey \<mapsto> ''null'']) tokenStorageKey = Some ''null'' \<and>
     JSON_parse js ''null'' = Some JNull"
    by (simp add: new_service_def with_defaults_def new_BehaviorSubject_def DEFAULT_BASE_URL_def
          getStoredToken_def getStoredToken_try_def property_or_throw_def date_less_def
          clearSession_def subject_next_def tokenStorageKey_def js_def js_texts_def
          js_dates_def token_t1_def token_t0_def token_no_string_def token_no_date_def)
  have thrown:
    "localStorage (new_service None [tokenStorageKey \<mapsto> ''oops'']) tokenStorageKey = Some ''oops'' \<and>
     ''oops'' \<noteq> [] \<and>
     getStoredToken_try js 0 (new_service None [tokenStorageKey \<mapsto> ''oops'']) ''oops'' =
       Inl SyntaxError"
    by (simp add: new_service_def with_defaults_def new_BehaviorSubject_def DEFAULT_BASE_URL_def
          getStoredToken_def getStoredToken_try_def property_or_throw_def date_less_def
          clearSession_def subject_next_def tokenStorageKey_def js_def js_texts_def
          js_dates_def token_t1_def token_t0_def token_no_string_def token_no_date_def)
  from getStoredToken_null_cases [of "new_service None [tokenStorageKey \<mapsto> ''null'']" js 0]
    json_null
  have "fst (getStoredToken js 0 (new_service None [tokenStorageKey \<mapsto> ''null''])) = None"
    by blast
  moreover
  from getStoredToken_null_cases [of "new_service None [tokenStorageKey \<mapsto> ''oops'']" js 0]
    thrown
  have "getStoredToken js 0 (new_service None [tokenStorageKey \<mapsto> ''oops'']) =
          (None, clearSession (new_service None [tokenStorageKey \<mapsto> ''oops'']))"
    by blast
  ultimately show ?thesis by simp
qed

text \<open>
  Where the claim as written fails: a sign-in that the server answered with the empty
  object as its token. The store then holds \<^verbatim>\<open>{}\<close>, valid JSON that is not the
  serialisation of a token; it has no \<^verbatim>\<open>expiresAt\<close>, the date made of
  \<^verbatim>\<open>undefined\<close> is invalid and compares as not before the current time, and the read
  returns the empty object, not \<^verbatim>\<open>null\<close>.
\<close>

theorem getStoredToken_returns_untyped_json:
  "localStorage (signed_in (JObject [])) tokenStorageKey = Some ''{}'' \<and>
   JSON_parse js ''{}'' = Some (JObject []) \<and>
   \<not> token_shaped (JObject []) \<and>
   \<not> valid_token_stored js 1000000 (signed_in (JObject [])) \<and>
   getStoredToken js 1000000 (signed_in (JObject [])) =
     (Some (JObject []), signed_in (JObject []))"
  by (simp add:
        signed_in_def signIn_def signIn_call_def signIn_answer_def complete_def setToken_def
        or_else_def getStoredToken_def getStoredToken_try_def property_or_throw_def
        date_less_def clearSession_def subject_next_def tokenStorageKey_def getHeaders_def
        template_def requesting_def endpoint_def user_u1_def session_s1_def fresh_def
        getUser_call_def constructor_def restoreSession_def new_service_def
        with_defaults_def new_BehaviorSubject_def DEFAULT_BASE_URL_def truthy_def js_def
        js_texts_def js_dates_def token_t1_def token_t0_def token_no_string_def
        token_no_date_def valid_token_stored_def stored_json_def token_shaped_def
        expiry_date_def)

subsection \<open>C8: the headers of a request\<close>

lemma getHeaders_fixed:
  assumes "fst (getHeaders P now s) = Inr hs"
  shows "map_of hs ''Content-Type'' = Some ''application/json'' \<and>
     map_of hs ''X-API-Key'' = Some (apiKey (config s))"
  using assms
  by (auto simp add: getHeaders_def Let_def split: option.splits sum.splits if_splits)

lemma getHeaders_organization:
  assumes "fst (getHeaders P now s) = Inr hs"
  shows "map_of hs ''X-Organization-ID'' =
     (case organizationId (config s) of
        None \<Rightarrow> None
      | Some org \<Rightarrow> if org = [] then None else Some org)"
  using assms
  by (auto simp add: getHeaders_def Let_def split: option.splits sum.splits if_splits)

lemma getHeaders_bearer:
  assumes "fst (getHeaders P now s) = Inr hs"
  shows "(map_of hs ''Authorization'' \<noteq> None) = accepted_value_stored P now s"
  using assms getHeaders_throws [of P now s]
  by (auto simp add: getHeaders_authorization [OF assms] accepted_value_stored_def
      unprintable_token_stored_def split: option.splits sum.splits)

lemma getHeaders_built:
  "\<not> unprintable_token_stored P now s \<Longrightarrow> \<exists>hs. fst (getHeaders P now s) = Inr hs"
  using getHeaders_throws [of P now s] by (cases "fst (getHeaders P now s)") auto

lemma sent_headers:
  "sent (signUp P now s e p d h1) = Some req \<Longrightarrow> fst (getHeaders P now s) = Inr (headers req)"
  "sent (signIn P now s e p h2) = Some req \<Longrightarrow> fst (getHeaders P now s) = Inr (headers req)"
  "sent (getUser P now s h3) = Some req \<Longrightarrow> fst (getHeaders P now s) = Inr (headers req)"
  "sent (updateUser P now s d' h3) = Some req \<Longrightarrow> fst (getHeaders P now s) = Inr (headers req)"
  "sent (requestPasswordReset P now s e h4) = Some req \<Longrightarrow>
     fst (getHeaders P now s) = Inr (headers req)"
  "sent (resetPassword P now s t p h4) = Some req \<Longrightarrow>
     fst (getHeaders P now s) = Inr (headers req)"
  by (auto simp add: signUp_def signIn_def getUser_def updateUser_def requestPasswordReset_def
      resetPassword_def signUp_call_def signIn_call_def getUser_call_def updateUser_call_def
      requestPasswordReset_call_def resetPassword_call_def complete_sent requesting_sent)

lemma sent_headers_signOut:
  "sent (signOut P now s h4) = Some req \<Longrightarrow> fst (getHeaders P now s) = Inr (headers req)"
  by (auto simp add: signOut_def signOut_call_def Let_def requesting_sent
      split: option.splits if_splits sum.splits)

lemma valid_bearer:
  assumes "valid_token_stored P now s"
  shows "\<exists>hs v t. fst (getHeaders P now s) = Inr hs \<and> stored_json P s = Some v \<and>
     property v ''token'' = Some (JString t) \<and>
     map_of hs ''Authorization'' = Some (''Bearer '' @ t)"
proof -
  from assms obtain v date where v: "stored_json P s = Some v" "token_shaped v"
      "expiry_date P v = Some date" "now \<le> date"
    by (auto simp add: valid_token_stored_def split: option.splits)
  from v(2) obtain t where t: "property v ''token'' = Some (JString t)"
      "template P (property v ''token'') = Inr t"
    using token_shaped_prints by blast
  from v(2) have truthy_v: "ToBoolean v" by (rule token_shaped_truthy)
  from v(3,4) have dated: "\<not> undatable P v" "\<not> expired P now v"
    by (simp_all add: dated_fresh)
  from v(1) t(2) have "\<not> unprintable_token_stored P now s"
    by (simp add: unprintable_token_stored_def)
  then obtain hs where hs: "fst (getHeaders P now s) = Inr hs"
    using getHeaders_built by blast
  from getHeaders_authorization [OF hs] v(1) t truthy_v dated
  have "map_of hs ''Authorization'' = Some (''Bearer '' @ t)"
    by simp
  with hs v(1) t(1) show ?thesis by blast
qed

text \<open>
  Claim C8. The headers built in a state always hold
  \<^verbatim>\<open>Content-Type: application/json\<close> and \<^verbatim>\<open>X-API-Key\<close> with the configured key.
  They hold \<^verbatim>\<open>X-Organization-ID\<close> exactly when an organization id is configured
  and is not the empty string, and they hold an \<^verbatim>\<open>Authorization\<close> header only if
  a present, parseable, non-expired value is stored; the shape of a parsed value is
  not looked at. In a state whose key is absent or holds the empty string, a text that
  does not parse, or a token whose \<^verbatim>\<open>expiresAt\<close> reads as a date, headers are
  built, and they hold \<^verbatim>\<open>Authorization\<close> exactly when a currently-valid token is
  stored at that moment: one that is present, parses, and has an expiry date that is
  not before the current time. In every state a valid stored token gives headers with
  \<^verbatim>\<open>Authorization: Bearer\<close> followed by its token string. Every request that an
  operation sends carries exactly the headers built in the state of its call.
\<close>

theorem getHeaders_contents:
  "(\<forall>hs. fst (getHeaders P now s) = Inr hs \<longrightarrow>
      map_of hs ''Content-Type'' = Some ''application/json'' \<and>
      map_of hs ''X-API-Key'' = Some (apiKey (config s)) \<and>
      map_of hs ''X-Organization-ID'' =
        (case organizationId (config s) of
           None \<Rightarrow> None
         | Some org \<Rightarrow> if org = [] then None else Some org) \<and>
      (map_of hs ''Authorization'' \<noteq> None \<longrightarrow> unexpired_value_stored P now s)) \<and>
   (token_or_nothing_stored P s \<longrightarrow>
      (\<exists>hs. fst (getHeaders P now s) = Inr hs \<and>
         (map_of hs ''Authorization'' \<noteq> None) = valid_token_stored P now s)) \<and>
   (valid_token_stored P now s \<longrightarrow>
      (\<exists>hs v t. fst (getHeaders P now s) = Inr hs \<and> stored_json P s = Some v \<and>
         property v ''token'' = Some (JString t) \<and>
         map_of hs ''Authorization'' = Some (''Bearer '' @ t))) \<and>
   (\<forall>req. sent (signUp P now s e p d h1) = Some req \<longrightarrow>
      fst (getHeaders P now s) = Inr (headers req)) \<and>
   (\<forall>req. sent (signIn P now s e p h2) = Some req \<longrightarrow>
      fst (getHeaders P now s) = Inr (headers req)) \<and>
   (\<forall>req. sent (signOut P now s h4) = Some req \<longrightarrow>
      fst (getHeaders P now s) = Inr (headers req)) \<and>
   (\<forall>req. sent (getUser P now s h3) = Some req \<longrightarrow>
      fst (getHeaders P now s) = Inr (headers req)) \<and>
   (\<forall>req. sent (updateUser P now s d' h3) = Some req \<longrightarrow>
      fst (getHeaders P now s) = Inr (headers req)) \<and>
   (\<forall>req. sent (requestPasswordReset P now s e h4) = Some req \<longrightarrow>
      fst (getHeaders P now s) = Inr (headers req)) \<and>
   (\<forall>req. sent (resetPassword P now s t p h4) = Some req \<longrightarrow>
      fst (getHeaders P now s) = Inr (headers req))"
proof -
  have built: "\<forall>hs. fst (getHeaders P now s) = Inr hs \<longrightarrow>
      map_of hs ''Content-Type'' = Some ''application/json'' \<and>
      map_of hs ''X-API-Key'' = Some (apiKey (config s)) \<and>
      map_of hs ''X-Organization-ID'' =
        (case organizationId (config s) of
           None \<Rightarrow> None
         | Some org \<Rightarrow> if org = [] then None else Some org) \<and>
      (map_of hs ''Authorization'' \<noteq> None \<longrightarrow> unexpired_value_stored P now s)"
    using getHeaders_fixed [of P now s] getHeaders_organization [of P now s]
      getHeaders_bearer [of P now s] accepted_unexpired [of P now s]
    by blast
  have token: "token_or_nothing_stored P s \<longrightarrow>
      (\<exists>hs. fst (getHeaders P now s) = Inr hs \<and>
         (map_of hs ''Authorization'' \<noteq> None) = valid_token_stored P now s)"
  proof
    assume kept: "token_or_nothing_stored P s"
    then obtain hs where hs: "fst (getHeaders P now s) = Inr hs"
      using token_printable getHeaders_built by blast
    from getHeaders_bearer [OF hs] accepted_token [OF kept, of now]
    have "(map_of hs ''Authorization'' \<noteq> None) = valid_token_stored P now s"
      by simp
    with hs show "\<exists>hs. fst (getHeaders P now s) = Inr hs \<and>
        (map_of hs ''Authorization'' \<noteq> None) = valid_token_stored P now s"
      by blast
  qed
  have valid: "valid_token_stored P now s \<longrightarrow>
      (\<exists>hs v t. fst (getHeaders P now s) = Inr hs \<and> stored_json P s = Some v \<and>
         property v ''token'' = Some (JString t) \<and>
         map_of hs ''Authorization'' = Some (''Bearer '' @ t))"
    using valid_bearer by blast
  from built token valid show ?thesis
    using sent_headers [of P now s] sent_headers_signOut [of P now s h4]
    by simp
qed

text \<open>
  A service configured with a key and an organization, over a store that holds a valid
  token: all four headers, and the profile request carries them.
\<close>

theorem getHeaders_contents_witness:
  "valid_token_stored js 1000000 acme_organization \<and>
   token_or_nothing_stored js acme_organization \<and>
   (\<exists>hs. fst (getHeaders js 1000000 acme_organization) = Inr hs \<and>
      map_of hs ''Content-Type'' = Some ''application/json'' \<and>
      map_of hs ''X-API-Key'' = Some ''key'' \<and>
      map_of hs ''X-Organization-ID'' = Some ''acme'' \<and>
      map_of hs ''Authorization'' = Some ''Bearer t1'' \<and>
      map_option headers
        (sent (getUser js 1000000 acme_organization (HttpFailure (HttpError None)))) = Some hs)"
proof -
  have configured:
    "apiKey (config acme_organization) = ''key'' \<and>
     organizationId (config acme_organization) = Some ''acme''"
    by (simp add: acme_organization_def getStoredToken_def getStoredToken_try_def
          property_or_throw_def date_less_def clearSession_def subject_next_def
          tokenStorageKey_def getHeaders_def template_def requesting_def endpoint_def
          getUser_call_def constructor_def restoreSession_def new_service_def
          with_defaults_def new_BehaviorSubject_def DEFAULT_BASE_URL_def truthy_def js_def
          js_texts_def js_dates_def token_t1_def token_t0_def token_no_string_def
          token_no_date_def)
  have stored: "stored_json js acme_organization = Some token_t1"
    by (simp add:
          acme_organization_def stored_json_def getStoredToken_def getStoredToken_try_def
          property_or_throw_def date_less_def clearSession_def subject_next_def
          tokenStorageKey_def getHeaders_def template_def requesting_def endpoint_def
          getUser_call_def constructor_def restoreSession_def new_service_def
          with_defaults_def new_BehaviorSubject_def DEFAULT_BASE_URL_def truthy_def js_def
          js_texts_def js_dates_def token_t1_def token_t0_def token_no_string_def
          token_no_date_def)
  have token: "property token_t1 ''token'' = Some (JString ''t1'')"
    by (simp add: token_t1_def)
  have valid: "valid_token_stored js 1000000 acme_organization"
    using stored by (simp add:
          valid_token_stored_def token_shaped_def expiry_date_def js_def js_texts_def
          js_dates_def token_t1_def token_t0_def token_no_string_def token_no_date_def)
  have kept: "token_or_nothing_stored js acme_organization"
    using stored by (simp add:
          token_or_nothing_stored_def token_shaped_def expiry_date_def js_def js_texts_def
          js_dates_def token_t1_def token_t0_def token_no_string_def token_no_date_def)
  note contents = getHeaders_contents
    [of js 1000000 acme_organization "''u1@example.org''" "''secret''" None
        "HttpFailure (HttpError None)" "HttpFailure (HttpError None)"
        "HttpFailure (HttpError None)" "HttpFailure (HttpError None)" Map.empty "''t''"]
  from contents valid obtain hs v t
    where hs: "fst (getHeaders js 1000000 acme_organization) = Inr hs"
      and bearer: "stored_json js acme_organization = Some v"
        "property v ''token'' = Some (JString t)"
        "map_of hs ''Authorization'' = Some (''Bearer '' @ t)"
    by blast
  from bearer stored token have authorization: "map_of hs ''Authorization'' = Some ''Bearer t1''"
    by simp
  have "sent (getUser js 1000000 acme_organization (HttpFailure (HttpError None))) \<noteq> None"
    using hs by (simp add: getUser_def getUser_call_def complete_def requesting_def Let_def)
  then obtain req
    where req: "sent (getUser js 1000000 acme_organization (HttpFailure (HttpError None))) =
        Some req"
    by blast
  with contents hs have "headers req = hs"
    by simp
  with contents hs configured authorization req valid kept show ?thesis
    by simp
qed

text \<open>
  Not exactly when a valid token is stored, and not exactly when an organization id is
  configured. With \<^verbatim>\<open>{}\<close> in the store, which is no token, the headers hold
  \<^verbatim>\<open>Authorization: Bearer undefined\<close>. With \<^verbatim>\<open>0\<close> in the store, which is present,
  parses and has not expired, they hold no \<^verbatim>\<open>Authorization\<close>. With the empty
  string configured as organization id they hold no \<^verbatim>\<open>X-Organization-ID\<close>.
\<close>

theorem getHeaders_bearer_undefined:
  "\<not> valid_token_stored js 1000000 (signed_in (JObject [])) \<and>
   (\<exists>hs. fst (getHeaders js 1000000 (signed_in (JObject []))) = Inr hs \<and>
      map_of hs ''Authorization'' = Some ''Bearer undefined'') \<and>
   unexpired_value_stored js 1000000 (signed_in (JNumber (Finite 0))) \<and>
   (\<exists>hs. fst (getHeaders js 1000000 (signed_in (JNumber (Finite 0)))) = Inr hs \<and>
      map_of hs ''Authorization'' = None) \<and>
   organizationId (config blank_organization) = Some [] \<and>
   (\<exists>hs. fst (getHeaders js 1000000 blank_organization) = Inr hs \<and>
      map_of hs ''X-Organization-ID'' = None)"
proof -
  have empty_object: "localStorage (signed_in (JObject [])) tokenStorageKey = Some ''{}'' \<and>
      organizationId (config (signed_in (JObject []))) = None"
    by (simp add: signed_in_def signIn_def signIn_call_def signIn_answer_def complete_def
          setToken_def or_else_def getStoredToken_def getStoredToken_try_def
          property_or_throw_def date_less_def clearSession_def subject_next_def
          tokenStorageKey_def getHeaders_def template_def requesting_def endpoint_def
          user_u1_def session_s1_def fresh_def getUser_call_def constructor_def
          restoreSession_def new_service_def with_defaults_def new_BehaviorSubject_def
          DEFAULT_BASE_URL_def truthy_def js_def js_texts_def js_dates_def token_t1_def
          token_t0_def token_no_string_def token_no_date_def)
  have zero: "localStorage (signed_in (JNumber (Finite 0))) tokenStorageKey = Some ''0'' \<and>
      organizationId (config (signed_in (JNumber (Finite 0)))) = None"
    by (simp add: signed_in_def signIn_def signIn_call_def signIn_answer_def complete_def
          setToken_def or_else_def getStoredToken_def getStoredToken_try_def
          property_or_throw_def date_less_def clearSession_def subject_next_def
          tokenStorageKey_def getHeaders_def template_def requesting_def endpoint_def
          user_u1_def session_s1_def fresh_def getUser_call_def constructor_def
          restoreSession_def new_service_def with_defaults_def new_BehaviorSubject_def
          DEFAULT_BASE_URL_def truthy_def js_def js_texts_def js_dates_def token_t1_def
          token_t0_def token_no_string_def token_no_date_def)
  have blank: "localStorage blank_organization tokenStorageKey = None \<and>
      organizationId (config blank_organization) = Some []"
    by (simp add: blank_organization_def getStoredToken_def getStoredToken_try_def
          property_or_throw_def date_less_def clearSession_def subject_next_def
          tokenStorageKey_def getHeaders_def template_def requesting_def endpoint_def
          getUser_call_def constructor_def restoreSession_def new_service_def
          with_defaults_def new_BehaviorSubject_def DEFAULT_BASE_URL_def truthy_def js_def
          js_texts_def js_dates_def token_t1_def token_t0_def token_no_string_def
          token_no_date_def)
  have "\<not> valid_token_stored js 1000000 (signed_in (JObject []))"
    using empty_object by (simp add:
          valid_token_stored_def stored_json_def token_shaped_def expiry_date_def js_def
          js_texts_def js_dates_def token_t1_def token_t0_def token_no_string_def
          token_no_date_def)
  moreover have "\<exists>hs. fst (getHeaders js 1000000 (signed_in (JObject []))) = Inr hs \<and>
      map_of hs ''Authorization'' = Some ''Bearer undefined''"
    using empty_object by (simp add:
          getStoredToken_def getStoredToken_try_def property_or_throw_def date_less_def
          clearSession_def subject_next_def tokenStorageKey_def getHeaders_def template_def
          requesting_def endpoint_def js_def js_texts_def js_dates_def token_t1_def
          token_t0_def token_no_string_def token_no_date_def)
  moreover have "unexpired_value_stored js 1000000 (signed_in (JNumber (Finite 0)))"
    using zero by (simp add:
          unexpired_value_stored_def stored_json_def expired_def date_less_def js_def
          js_texts_def js_dates_def token_t1_def token_t0_def token_no_string_def
          token_no_date_def)
  moreover have "\<exists>hs. fst (getHeaders js 1000000 (signed_in (JNumber (Finite 0)))) = Inr hs \<and>
      map_of hs ''Authorization'' = None"
    using zero by (simp add:
          getStoredToken_def getStoredToken_try_def property_or_throw_def date_less_def
          clearSession_def subject_next_def tokenStorageKey_def getHeaders_def template_def
          requesting_def endpoint_def js_def js_texts_def js_dates_def token_t1_def
          token_t0_def token_no_string_def token_no_date_def)
  moreover have "\<exists>hs. fst (getHeaders js 1000000 blank_organization) = Inr hs \<and>
      map_of hs ''X-Organization-ID'' = None"
    using blank by (simp add:
          getStoredToken_def getStoredToken_try_def property_or_throw_def date_less_def
          clearSession_def subject_next_def tokenStorageKey_def getHeaders_def template_def
          requesting_def endpoint_def js_def js_texts_def js_dates_def token_t1_def
          token_t0_def token_no_string_def token_no_date_def)
  ultimately show ?thesis using blank by simp
qed

subsection \<open>C9: sign-out without a session\<close>

text \<open>
  Claim C9. In every state whose current session is \<^verbatim>\<open>null\<close>, \<^verbatim>\<open>signOut\<close> sends
  no request: it clears the session and answers at once, whatever the outcome an HTTP
  exchange would have had. Afterwards the current user and the current session are
  \<^verbatim>\<open>null\<close> and the token's key is absent from the store.
\<close>

theorem signOut_without_session:
  "current (currentSessionSubject s) = None \<Longrightarrow>
     signOut P now s http = \<lparr>sent = None, outcome = Inr (), after = clearSession s\<rparr> \<and>
     current (currentUserSubject (after (signOut P now s http))) = None \<and>
     current (currentSessionSubject (after (signOut P now s http))) = None \<and>
     localStorage (after (signOut P now s http)) tokenStorageKey = None"
  by (simp add: signOut_def signOut_call_def clearSession_localStorage clearSession_user
      clearSession_session)

text \<open>
  After a sign-up there is a user and a stored token, and no session: the sign-out
  sends nothing and clears both.
\<close>

theorem signOut_without_session_witness:
  "current (currentUserSubject signed_up) = Some user_u1 \<and>
   localStorage signed_up tokenStorageKey = Some (JSON_stringify js token_t1) \<and>
   current (currentSessionSubject signed_up) = None \<and>
   sent (signOut js 1000000 signed_up (HttpSuccess ())) = None \<and>
   outcome (signOut js 1000000 signed_up (HttpSuccess ())) = Inr () \<and>
   current (currentUserSubject (after (signOut js 1000000 signed_up (HttpSuccess ())))) = None \<and>
   localStorage (after (signOut js 1000000 signed_up (HttpSuccess ()))) tokenStorageKey = None"
proof -
  have before:
    "current (currentUserSubject signed_up) = Some user_u1 \<and>
     localStorage signed_up tokenStorageKey = Some (JSON_stringify js token_t1)"
    by (simp add:
          signed_up_def signUp_def signUp_call_def signUp_answer_def complete_def spread_def
          setToken_def or_else_def user_u1_def fresh_def getStoredToken_def
          getStoredToken_try_def property_or_throw_def date_less_def clearSession_def
          subject_next_def tokenStorageKey_def getHeaders_def template_def requesting_def
          endpoint_def getUser_call_def constructor_def restoreSession_def new_service_def
          with_defaults_def new_BehaviorSubject_def DEFAULT_BASE_URL_def truthy_def js_def
          js_texts_def js_dates_def token_t1_def token_t0_def token_no_string_def
          token_no_date_def)
  have no_session: "current (currentSessionSubject signed_up) = None"
    by (simp add:
          signed_up_def signUp_def signUp_call_def signUp_answer_def complete_def spread_def
          setToken_def or_else_def user_u1_def fresh_def getStoredToken_def
          getStoredToken_try_def property_or_throw_def date_less_def clearSession_def
          subject_next_def tokenStorageKey_def getHeaders_def template_def requesting_def
          endpoint_def getUser_call_def constructor_def restoreSession_def new_service_def
          with_defaults_def new_BehaviorSubject_def DEFAULT_BASE_URL_def truthy_def js_def
          js_texts_def js_dates_def token_t1_def token_t0_def token_no_string_def
          token_no_date_def)
  from signOut_without_session [OF no_session, of js 1000000 "HttpSuccess ()"] before no_session
  show ?thesis by (simp add: clearSession_localStorage clearSession_user)
qed

subsection \<open>C10: the check without a user reads nothing\<close>

text \<open>
  Claim C10. In every state whose current user is \<^verbatim>\<open>null\<close>, \<^verbatim>\<open>isAuthenticated()\<close>
  returns false and leaves the whole state as it was: the \<^verbatim>\<open>&&\<close> answers before
  \<^verbatim>\<open>getStoredToken\<close> is called, so the stored value, the two subjects and what they
  have emitted are the same after the call, on every platform and at every time.
\<close>

theorem isAuthenticated_without_user:
  "current (currentUserSubject s) = None \<Longrightarrow> isAuthenticated P now s = (False, s)"
  by (simp add: isAuthenticated_def)

text \<open>
  A service constructed over a stored token has no user as long as its profile request
  is not answered; when the token has expired, the check still leaves it in the store.
\<close>

theorem isAuthenticated_without_user_witness:
  "current (currentUserSubject (started_over (JSON_stringify js token_t1))) = None \<and>
   stale_value_stored js 5000000 (started_over (JSON_stringify js token_t1)) \<and>
   isAuthenticated js 5000000 (started_over (JSON_stringify js token_t1)) =
     (False, started_over (JSON_stringify js token_t1))"
proof -
  have no_user: "current (currentUserSubject (started_over (JSON_stringify js token_t1))) = None"
    by (simp add:
          started_over_def getStoredToken_def getStoredToken_try_def property_or_throw_def
          date_less_def clearSession_def subject_next_def tokenStorageKey_def getHeaders_def
          template_def requesting_def endpoint_def getUser_call_def constructor_def
          restoreSession_def new_service_def with_defaults_def new_BehaviorSubject_def
          DEFAULT_BASE_URL_def truthy_def js_def js_texts_def js_dates_def token_t1_def
          token_t0_def token_no_string_def token_no_date_def)
  have "stale_value_stored js 5000000 (started_over (JSON_stringify js token_t1))"
    by (simp add:
          started_over_def getStoredToken_def getStoredToken_try_def property_or_throw_def
          date_less_def clearSession_def subject_next_def tokenStorageKey_def getHeaders_def
          template_def requesting_def endpoint_def getUser_call_def constructor_def
          restoreSession_def new_service_def with_defaults_def new_BehaviorSubject_def
          DEFAULT_BASE_URL_def truthy_def js_def js_texts_def js_dates_def token_t1_def
          token_t0_def token_no_string_def token_no_date_def stale_value_stored_def
          expired_def undatable_def)
  with no_user isAuthenticated_without_user [OF no_user, of js 5000000]
  show ?thesis by simp
qed

end
